theory Spec2Isabelle
  imports
    Complex_Main
    "HOL-Library.Char_ord"
    "HOL-Library.List_Lexorder"
    "HOL-Library.Multiset"
    "HOL-Library.Sublist"
begin

section \<open>The HUSH backend (main.py)\<close>

text \<open>
  A shallow embedding of \<^verbatim>\<open>main.py\<close>. Conventions:
  \<^item> Python floats are idealised as \<^typ>\<open>real\<close>: the arithmetic of the update handler is
    read as exact arithmetic, rounding is not modelled.
  \<^item> The module globals, the table of \<^verbatim>\<open>hush.db\<close> and standard output form one explicit
    state, \<open>world\<close>; every handler takes the world and returns the new one.
  \<^item> An exception is a value \<open>Inl e\<close> of \<open>error + 'a\<close>, returned together with the world
    as it was when the exception left the handler (assignments made before it stay).
  \<^item> What the handler reads from its environment is an explicit argument (\<open>effects\<close>): the
    three values returned by \<^verbatim>\<open>np.random.laplace\<close>, the value of \<^verbatim>\<open>datetime.now()\<close>, and
    whether \<^verbatim>\<open>session.commit()\<close>, \<^verbatim>\<open>session.refresh()\<close> and \<^verbatim>\<open>print\<close> go through.
\<close>

subsection \<open>Data model\<close>

text \<open>\<^verbatim>\<open>class ModelUpdatePayload(BaseModel)\<close>\<close>

record ModelUpdatePayload =
  feature_attributions :: "string \<rightharpoonup> real"
  user_id :: string

text \<open>
  \<^verbatim>\<open>class DashboardDataPoint(SQLModel, table=True)\<close>. The primary key \<^verbatim>\<open>id\<close> is
  \<^verbatim>\<open>Optional[int]\<close>, \<^verbatim>\<open>None\<close> until the store assigns it; the field is named \<open>id_col\<close>
  here because \<open>id\<close> is the identity function of HOL.
\<close>

record DashboardDataPoint =
  id_col :: "int option"
  timestamp :: string
  avg_text_importance :: real
  avg_typing_importance :: real
  avg_voice_importance :: real

text \<open>
  The exceptions that can leave a handler. \<open>StoreFault\<close> stands for whatever the store
  raises from \<^verbatim>\<open>commit\<close> or \<^verbatim>\<open>refresh\<close>, \<open>OutputFault\<close> for whatever \<^verbatim>\<open>print\<close> raises
  (a closed or full output stream).
\<close>

datatype error = KeyError string | ZeroDivisionError | StoreFault | OutputFault

text \<open>
  The value of \<^verbatim>\<open>datetime.now()\<close>: a naive local wall-clock reading (no time zone).
  Python only builds readings whose fields are in range.
\<close>

record datetime =
  year :: nat
  month :: nat
  day :: nat
  hour :: nat
  minute :: nat
  second :: nat
  microsecond :: nat

definition valid_datetime :: "datetime \<Rightarrow> bool" where
  "valid_datetime d \<longleftrightarrow>
     1 \<le> year d \<and> year d \<le> 9999 \<and> 1 \<le> month d \<and> month d \<le> 12 \<and>
     1 \<le> day d \<and> day d \<le> 31 \<and> hour d \<le> 23 \<and> minute d \<le> 59 \<and>
     second d \<le> 59 \<and> microsecond d \<le> 999999"

text \<open>
  Two clock readings are compared as Python compares naive \<^verbatim>\<open>datetime\<close> values:
  lexicographically on the fields, most significant first, that is as the lists
  \<open>datetime_key\<close>.
\<close>

definition datetime_key :: "datetime \<Rightarrow> nat list" where
  "datetime_key d = [year d, month d, day d, hour d, minute d, second d, microsecond d]"

definition digit_char :: "nat \<Rightarrow> char" where
  "digit_char d = char_of (48 + d)"

text \<open>\<open>zero_padded k n\<close> is Python's \<^verbatim>\<open>"%0kd" % n\<close> for \<open>n < 10 ^ k\<close>.\<close>

fun zero_padded :: "nat \<Rightarrow> nat \<Rightarrow> string" where
  "zero_padded 0 n = []"
| "zero_padded (Suc k) n = zero_padded k (n div 10) @ [digit_char (n mod 10)]"

text \<open>
  \<^verbatim>\<open>datetime.isoformat()\<close> of a naive reading: \<^verbatim>\<open>YYYY-MM-DDTHH:MM:SS\<close>, followed by
  \<^verbatim>\<open>.ffffff\<close> only when the microsecond field is not zero, and no offset suffix.
\<close>

definition isoformat :: "datetime \<Rightarrow> string" where
  "isoformat d =
     zero_padded 4 (year d) @ ''-'' @ zero_padded 2 (month d) @ ''-'' @
     zero_padded 2 (day d) @ ''T'' @ zero_padded 2 (hour d) @ '':'' @
     zero_padded 2 (minute d) @ '':'' @ zero_padded 2 (second d) @
     (if microsecond d = 0 then [] else ''.'' @ zero_padded 6 (microsecond d))"

text \<open>
  What one call of the update handler reads from its environment: the three noise
  draws, the clock, and the outcome of each of the three calls that can fail for reasons
  outside the program, in the order the handler makes them.
\<close>

record effects =
  laplace_text :: real
  laplace_typing :: real
  laplace_voice :: real
  now :: datetime
  commit_ok :: bool
  refresh_ok :: bool
  print_ok :: bool

text \<open>
  The state: the two module globals, the rows of table \<^verbatim>\<open>dashboarddatapoint\<close> of
  \<^verbatim>\<open>hush.db\<close> in insertion order, and the lines printed so far.
\<close>

record world =
  global_model_weights :: "string \<rightharpoonup> real"
  global_update_count :: int
  hush_db :: "DashboardDataPoint list"
  stdout :: "string list"

record response =
  status :: string
  new_data_point :: DashboardDataPoint

subsection \<open>Dictionary and store primitives\<close>

text \<open>\<^verbatim>\<open>d.get(k, default)\<close>\<close>

definition dict_get :: "('k \<rightharpoonup> 'v) \<Rightarrow> 'k \<Rightarrow> 'v \<Rightarrow> 'v" where
  "dict_get d k dflt = (case d k of None \<Rightarrow> dflt | Some v \<Rightarrow> v)"

text \<open>
  The store assigns an \<^verbatim>\<open>INTEGER PRIMARY KEY\<close> on insert: one more than the largest key
  in the table, 1 in an empty table.
\<close>

fun max_id :: "DashboardDataPoint list \<Rightarrow> int" where
  "max_id [] = 0"
| "max_id (r # rs) = max (case id_col r of None \<Rightarrow> 0 | Some i \<Rightarrow> i) (max_id rs)"

definition insert_row :: "DashboardDataPoint \<Rightarrow> DashboardDataPoint list \<Rightarrow> DashboardDataPoint list" where
  "insert_row r tbl = tbl @ [r\<lparr>id_col := Some (max_id tbl + 1)\<rparr>]"

text \<open>\<^verbatim>\<open>session.add(x)\<close> for each element in turn, then \<^verbatim>\<open>session.commit()\<close>.\<close>

definition add_all :: "DashboardDataPoint list \<Rightarrow> DashboardDataPoint list \<Rightarrow> DashboardDataPoint list" where
  "add_all rs tbl = fold insert_row rs tbl"

subsection \<open>Process start: module globals and \<^verbatim>\<open>lifespan\<close>\<close>

definition db_data :: "DashboardDataPoint list" where
  "db_data =
     [\<lparr>id_col = None, timestamp = ''2025-11-01T10:00:00Z'', avg_text_importance = 0.4,
        avg_typing_importance = 0.4, avg_voice_importance = 0.2\<rparr>,
      \<lparr>id_col = None, timestamp = ''2025-11-01T11:00:00Z'', avg_text_importance = 0.42,
        avg_typing_importance = 0.38, avg_voice_importance = 0.2\<rparr>,
      \<lparr>id_col = None, timestamp = ''2025-11-01T12:00:00Z'', avg_text_importance = 0.38,
        avg_typing_importance = 0.45, avg_voice_importance = 0.17\<rparr>]"

text \<open>
  The start-up half of \<^verbatim>\<open>lifespan\<close>. \<^verbatim>\<open>create_db_and_tables\<close> creates the table when it is
  absent, which the model does not tell apart from an empty table.
  \<^verbatim>\<open>session.exec(select(DashboardDataPoint)).first()\<close> is \<^verbatim>\<open>None\<close> exactly on an empty
  table, and a row object is truthy. A fault of the store or of the output stream here
  ends the process before it serves a request, so the model covers the processes that
  did start.
\<close>

definition lifespan :: "world \<Rightarrow> world" where
  "lifespan w0 =
     (let w1 = w0\<lparr>stdout := stdout w0 @ [''Server starting up...'']\<rparr>
      in if hush_db w1 = [] then
           w1\<lparr>hush_db := add_all db_data (hush_db w1),
              stdout := stdout w1 @ [''Database is empty, pre-populating with mock data...'',
                                     ''Mock data populated.'']\<rparr>
         else w1)"

text \<open>
  Loading the module sets the two globals; the table is whatever the file \<^verbatim>\<open>hush.db\<close>
  held when the process started.
\<close>

definition module_globals :: "DashboardDataPoint list \<Rightarrow> world" where
  "module_globals tbl =
     \<lparr>global_model_weights = [''text'' \<mapsto> 0.33, ''typing'' \<mapsto> 0.33, ''voice'' \<mapsto> 0.34],
      global_update_count = 0,
      hush_db = tbl,
      stdout = []\<rparr>"

definition process_start :: "DashboardDataPoint list \<Rightarrow> world" where
  "process_start tbl = lifespan (module_globals tbl)"

subsection \<open>\<^verbatim>\<open>POST /v1/submit-update\<close>\<close>

text \<open>
  One of the three assignments
  \<^verbatim>\<open>global_model_weights[k] = (global_model_weights[k] * (total - 1) + noisy) / total\<close>.
  Reading a missing key raises \<^verbatim>\<open>KeyError\<close>, dividing by \<^verbatim>\<open>total = 0\<close> raises
  \<^verbatim>\<open>ZeroDivisionError\<close>; either leaves the dictionary as it was.
\<close>

definition fedavg_assign :: "string \<Rightarrow> real \<Rightarrow> int \<Rightarrow> world \<Rightarrow> error + world" where
  "fedavg_assign k noisy total_n w =
     (case global_model_weights w k of
        None \<Rightarrow> Inl (KeyError k)
      | Some old \<Rightarrow>
          if total_n = 0 then Inl ZeroDivisionError
          else Inr (w\<lparr>global_model_weights :=
                        (global_model_weights w)(k \<mapsto> (old * of_int (total_n - 1) + noisy) / of_int total_n)\<rparr>))"

text \<open>
  Step 3 of the handler, lines 125 to 137: build the row from the current weights and
  the clock, add, commit, refresh (the returned row is the stored one, with its key),
  print, return. A failing commit raises and writes nothing. Once the commit has gone
  through the row is in the table for good: when \<^verbatim>\<open>refresh\<close> (line 134) or \<^verbatim>\<open>print\<close>
  (line 136) then raises, the request fails and the row stays.
\<close>

definition save_new_data_point :: "ModelUpdatePayload \<Rightarrow> effects \<Rightarrow> world \<Rightarrow> (error + response) \<times> world" where
  "save_new_data_point payload fx w =
     (case global_model_weights w ''text'' of
        None \<Rightarrow> (Inl (KeyError ''text''), w)
      | Some t \<Rightarrow>
     (case global_model_weights w ''typing'' of
        None \<Rightarrow> (Inl (KeyError ''typing''), w)
      | Some ty \<Rightarrow>
     (case global_model_weights w ''voice'' of
        None \<Rightarrow> (Inl (KeyError ''voice''), w)
      | Some v \<Rightarrow>
          (let new_data_point =
                 \<lparr>id_col = None, timestamp = isoformat (now fx), avg_text_importance = t,
                  avg_typing_importance = ty, avg_voice_importance = v\<rparr>
           in if commit_ok fx then
                (let tbl = insert_row new_data_point (hush_db w);
                     w' = w\<lparr>hush_db := tbl\<rparr>
                 in if refresh_ok fx then
                      if print_ok fx then
                        (Inr \<lparr>status = ''update received and saved'', new_data_point = last tbl\<rparr>,
                         w'\<lparr>stdout := stdout w @ [''Processed and saved update from '' @ user_id payload]\<rparr>)
                      else (Inl OutputFault, w')
                    else (Inl StoreFault, w'))
              else (Inl StoreFault, w)))))"

text \<open>
  The handler, lines 108 to 137. The source's \<^verbatim>\<open>total\<close> is \<open>total_n\<close> here (\<open>total\<close> is a
  constant of HOL). \<^verbatim>\<open>scale = 0.1\<close> only parameterises the three draws, whose values are
  read from \<open>fx\<close>. Line 118 is the update to \<open>w1\<close>; an exception raised by one of the
  three assignments leaves the state with that update and the assignments before it.
\<close>

definition submit_model_update :: "ModelUpdatePayload \<Rightarrow> effects \<Rightarrow> world \<Rightarrow> (error + response) \<times> world" where
  "submit_model_update payload fx w0 =
     (let noisy_text = dict_get (feature_attributions payload) ''text'' 0 + laplace_text fx;
          noisy_typing = dict_get (feature_attributions payload) ''typing'' 0 + laplace_typing fx;
          noisy_voice = dict_get (feature_attributions payload) ''voice'' 0 + laplace_voice fx;
          total_n = global_update_count w0 + 1;
          w1 = w0\<lparr>global_update_count := max 1 (global_update_count w0)\<rparr>
      in case fedavg_assign ''text'' noisy_text total_n w1 of
           Inl e \<Rightarrow> (Inl e, w1)
         | Inr w2 \<Rightarrow>
        (case fedavg_assign ''typing'' noisy_typing total_n w2 of
           Inl e \<Rightarrow> (Inl e, w2)
         | Inr w3 \<Rightarrow>
        (case fedavg_assign ''voice'' noisy_voice total_n w3 of
           Inl e \<Rightarrow> (Inl e, w3)
         | Inr w4 \<Rightarrow> save_new_data_point payload fx (w4\<lparr>global_update_count := total_n\<rparr>))))"

subsection \<open>\<^verbatim>\<open>GET /v1/dashboard-data\<close> and \<^verbatim>\<open>GET /\<close>\<close>

text \<open>
  \<^verbatim>\<open>select(DashboardDataPoint).order_by(DashboardDataPoint.timestamp)\<close>: the store compares
  the strings byte by byte; rows with equal timestamps come in insertion order.
\<close>

definition get_dashboard_data :: "world \<Rightarrow> DashboardDataPoint list" where
  "get_dashboard_data w = sort_key timestamp (hush_db w)"

definition read_root :: string where
  "read_root = ''HUSH Backend is running.''"

subsection \<open>The handler without line 118\<close>

text \<open>
  The update handler with the statement
  \<^verbatim>\<open>global_update_count = max(1, global_update_count)\<close> removed and nothing else
  changed; it is compared with \<open>submit_model_update\<close> below.
\<close>

definition submit_model_update_unguarded :: "ModelUpdatePayload \<Rightarrow> effects \<Rightarrow> world \<Rightarrow> (error + response) \<times> world" where
  "submit_model_update_unguarded payload fx w0 =
     (let noisy_text = dict_get (feature_attributions payload) ''text'' 0 + laplace_text fx;
          noisy_typing = dict_get (feature_attributions payload) ''typing'' 0 + laplace_typing fx;
          noisy_voice = dict_get (feature_attributions payload) ''voice'' 0 + laplace_voice fx;
          total_n = global_update_count w0 + 1
      in case fedavg_assign ''text'' noisy_text total_n w0 of
           Inl e \<Rightarrow> (Inl e, w0)
         | Inr w2 \<Rightarrow>
        (case fedavg_assign ''typing'' noisy_typing total_n w2 of
           Inl e \<Rightarrow> (Inl e, w2)
         | Inr w3 \<Rightarrow>
        (case fedavg_assign ''voice'' noisy_voice total_n w3 of
           Inl e \<Rightarrow> (Inl e, w3)
         | Inr w4 \<Rightarrow> save_new_data_point payload fx (w4\<lparr>global_update_count := total_n\<rparr>))))"

subsection \<open>Sequences of operations\<close>

text \<open>
  What can happen to a deployment: the process is (re)started on the table the file
  holds, or the running process serves one of its three routes.
\<close>

datatype request =
    Restart
  | ReadRoot
  | SubmitUpdate ModelUpdatePayload effects
  | GetDashboardData

datatype reply =
    Started
  | RootReply string
  | SubmitReply "error + response"
  | DashboardReply "DashboardDataPoint list"

fun handle :: "request \<Rightarrow> world \<Rightarrow> reply \<times> world" where
  "handle Restart w = (Started, process_start (hush_db w))"
| "handle ReadRoot w = (RootReply read_root, w)"
| "handle (SubmitUpdate payload fx) w =
     (case submit_model_update payload fx w of (r, w') \<Rightarrow> (SubmitReply r, w'))"
| "handle GetDashboardData w = (DashboardReply (get_dashboard_data w), w)"

fun serve :: "request list \<Rightarrow> world \<Rightarrow> reply list \<times> world" where
  "serve [] w = ([], w)"
| "serve (rq # rqs) w =
     (case handle rq w of (r, w') \<Rightarrow>
        (case serve rqs w' of (rs, w'') \<Rightarrow> (r # rs, w'')))"

text \<open>An update is accepted when its handler returns a response.\<close>

fun is_accepted :: "reply \<Rightarrow> bool" where
  "is_accepted (SubmitReply (Inr r)) = True"
| "is_accepted other = False"

definition accepted :: "reply list \<Rightarrow> nat" where
  "accepted rs = length (filter is_accepted rs)"

text \<open>
  The states a deployment can be in: a first start on an empty store, then any number of
  update requests (accepted or not) and restarts. The two read-only routes do not change
  the state.
\<close>

inductive reachable :: "world \<Rightarrow> bool" where
  first_start: "reachable (process_start [])"
| restart: "reachable w \<Longrightarrow> reachable (process_start (hush_db w))"
| update: "reachable w \<Longrightarrow> reachable (snd (submit_model_update payload fx w))"

text \<open>
  What the update requests of a sequence read from their environment, in order; an
  update is committed when its row is written, whether or not the request then returns.
\<close>

fun update_effects :: "request list \<Rightarrow> effects list" where
  "update_effects [] = []"
| "update_effects (SubmitUpdate payload fx # rqs) = fx # update_effects rqs"
| "update_effects (other # rqs) = update_effects rqs"

definition committed :: "request list \<Rightarrow> nat" where
  "committed rqs = length (filter commit_ok (update_effects rqs))"

text \<open>The clock readings of the update requests of a sequence, in order.\<close>

fun clock_readings :: "request list \<Rightarrow> datetime list" where
  "clock_readings [] = []"
| "clock_readings (SubmitUpdate payload fx # rqs) = now fx # clock_readings rqs"
| "clock_readings (other # rqs) = clock_readings rqs"

section \<open>Properties\<close>

subsection \<open>What the update handler computes\<close>

text \<open>
  Step 3 never touches the two globals, and it changes the table only by appending the
  row it built, which it does exactly when the commit goes through.
\<close>

lemma save_new_data_point_globals:
  "global_update_count (snd (save_new_data_point p fx w)) = global_update_count w"
  "global_model_weights (snd (save_new_data_point p fx w)) = global_model_weights w"
  by (simp_all add: save_new_data_point_def Let_def split: option.splits)

lemma save_new_data_point_present:
  assumes "global_model_weights w ''text'' = Some t"
    and "global_model_weights w ''typing'' = Some ty"
    and "global_model_weights w ''voice'' = Some v"
  shows "save_new_data_point p fx w =
     (if commit_ok fx then
        if refresh_ok fx then
          if print_ok fx then
            (Inr \<lparr>status = ''update received and saved'',
                  new_data_point = \<lparr>id_col = Some (max_id (hush_db w) + 1), timestamp = isoformat (now fx),
                     avg_text_importance = t, avg_typing_importance = ty, avg_voice_importance = v\<rparr>\<rparr>,
             w\<lparr>hush_db := hush_db w @ [\<lparr>id_col = Some (max_id (hush_db w) + 1), timestamp = isoformat (now fx),
                     avg_text_importance = t, avg_typing_importance = ty, avg_voice_importance = v\<rparr>],
                stdout := stdout w @ [''Processed and saved update from '' @ user_id p]\<rparr>)
          else
            (Inl OutputFault,
             w\<lparr>hush_db := hush_db w @ [\<lparr>id_col = Some (max_id (hush_db w) + 1), timestamp = isoformat (now fx),
                     avg_text_importance = t, avg_typing_importance = ty, avg_voice_importance = v\<rparr>]\<rparr>)
        else
          (Inl StoreFault,
           w\<lparr>hush_db := hush_db w @ [\<lparr>id_col = Some (max_id (hush_db w) + 1), timestamp = isoformat (now fx),
                   avg_text_importance = t, avg_typing_importance = ty, avg_voice_importance = v\<rparr>]\<rparr>)
      else (Inl StoreFault, w))"
  using assms by (simp add: save_new_data_point_def Let_def insert_row_def)


lemma submit_model_update_present:
  assumes "global_model_weights w ''text'' = Some t"
    and "global_model_weights w ''typing'' = Some ty"
    and "global_model_weights w ''voice'' = Some v"
    and "global_update_count w \<noteq> - 1"
  shows "submit_model_update p fx w =
     save_new_data_point p fx
       (w\<lparr>global_model_weights := (global_model_weights w)
            (''text'' \<mapsto> (t * of_int (global_update_count w) + (dict_get (feature_attributions p) ''text'' 0 + laplace_text fx)) / of_int (global_update_count w + 1),
             ''typing'' \<mapsto> (ty * of_int (global_update_count w) + (dict_get (feature_attributions p) ''typing'' 0 + laplace_typing fx)) / of_int (global_update_count w + 1),
             ''voice'' \<mapsto> (v * of_int (global_update_count w) + (dict_get (feature_attributions p) ''voice'' 0 + laplace_voice fx)) / of_int (global_update_count w + 1)),
          global_update_count := global_update_count w + 1\<rparr>)"
proof -
  have n: "global_update_count w + 1 \<noteq> 0" using assms(4) by arith
  show ?thesis
    using assms(1-3) n
    by (simp add: submit_model_update_def fedavg_assign_def Let_def)
qed

lemma submit_model_update_unguarded_present:
  assumes "global_model_weights w ''text'' = Some t"
    and "global_model_weights w ''typing'' = Some ty"
    and "global_model_weights w ''voice'' = Some v"
    and "global_update_count w \<noteq> - 1"
  shows "submit_model_update_unguarded p fx w =
     save_new_data_point p fx
       (w\<lparr>global_model_weights := (global_model_weights w)
            (''text'' \<mapsto> (t * of_int (global_update_count w) + (dict_get (feature_attributions p) ''text'' 0 + laplace_text fx)) / of_int (global_update_count w + 1),
             ''typing'' \<mapsto> (ty * of_int (global_update_count w) + (dict_get (feature_attributions p) ''typing'' 0 + laplace_typing fx)) / of_int (global_update_count w + 1),
             ''voice'' \<mapsto> (v * of_int (global_update_count w) + (dict_get (feature_attributions p) ''voice'' 0 + laplace_voice fx)) / of_int (global_update_count w + 1)),
          global_update_count := global_update_count w + 1\<rparr>)"
proof -
  have n: "global_update_count w + 1 \<noteq> 0" using assms(4) by arith
  show ?thesis
    using assms(1-3) n
    by (simp add: submit_model_update_unguarded_def fedavg_assign_def Let_def)
qed


lemma fedavg_assign_frame:
  assumes "fedavg_assign k x n w = Inr w'"
  shows "global_update_count w' = global_update_count w"
    and "hush_db w' = hush_db w"
    and "stdout w' = stdout w"
  using assms by (auto simp: fedavg_assign_def split: option.splits if_splits)

lemma save_new_data_point_table:
  "hush_db (snd (save_new_data_point p fx w)) = hush_db w \<or>
   (commit_ok fx \<and>
    (\<exists>r. hush_db (snd (save_new_data_point p fx w)) = hush_db w @ [r] \<and>
         timestamp r = isoformat (now fx)))"
  by (simp add: save_new_data_point_def Let_def insert_row_def split: option.splits)

lemma save_new_data_point_failed_commit:
  assumes "\<not> commit_ok fx"
  shows "hush_db (snd (save_new_data_point p fx w)) = hush_db w"
    and "fst (save_new_data_point p fx w) \<noteq> Inr r"
  using assms by (simp_all add: save_new_data_point_def Let_def split: option.splits)

lemma save_new_data_point_accepted:
  assumes "fst (save_new_data_point p fx w) = Inr r"
  shows "hush_db (snd (save_new_data_point p fx w)) = hush_db w @ [new_data_point r]"
    and "timestamp (new_data_point r) = isoformat (now fx)"
    and "commit_ok fx \<and> refresh_ok fx \<and> print_ok fx"
  using assms
  by (auto simp: save_new_data_point_def Let_def insert_row_def split: option.splits if_splits)

text \<open>
  The handler either raises before step 3, with the table untouched, or is step 3 on a
  state with the same table.
\<close>

lemma submit_model_update_cases:
  obtains e u where "submit_model_update p fx w = (Inl e, u)" and "hush_db u = hush_db w"
  | u where "submit_model_update p fx w = save_new_data_point p fx u" and "hush_db u = hush_db w"
proof -
  let ?n = "global_update_count w + 1"
  let ?w1 = "w\<lparr>global_update_count := max 1 (global_update_count w)\<rparr>"
  let ?a1 = "fedavg_assign ''text'' (dict_get (feature_attributions p) ''text'' 0 + laplace_text fx) ?n ?w1"
  have t1: "hush_db ?w1 = hush_db w" by simp
  show ?thesis
  proof (cases ?a1)
    case (Inl e)
    then have "submit_model_update p fx w = (Inl e, ?w1)"
      by (simp add: submit_model_update_def Let_def)
    with t1 that(1) show ?thesis by blast
  next
    case w2: (Inr w2)
    let ?a2 = "fedavg_assign ''typing'' (dict_get (feature_attributions p) ''typing'' 0 + laplace_typing fx) ?n w2"
    have t2: "hush_db w2 = hush_db w" using fedavg_assign_frame(2) [OF w2] by simp
    show ?thesis
    proof (cases ?a2)
      case (Inl e)
      with w2 have "submit_model_update p fx w = (Inl e, w2)"
        by (simp add: submit_model_update_def Let_def)
      with t2 that(1) show ?thesis by blast
    next
      case w3: (Inr w3)
      let ?a3 = "fedavg_assign ''voice'' (dict_get (feature_attributions p) ''voice'' 0 + laplace_voice fx) ?n w3"
      have t3: "hush_db w3 = hush_db w" using fedavg_assign_frame(2) [OF w3] t2 by simp
      show ?thesis
      proof (cases ?a3)
        case (Inl e)
        with w2 w3 have "submit_model_update p fx w = (Inl e, w3)"
          by (simp add: submit_model_update_def Let_def)
        with t3 that(1) show ?thesis by blast
      next
        case w4: (Inr w4)
        have t4: "hush_db (w4\<lparr>global_update_count := ?n\<rparr>) = hush_db w"
          using fedavg_assign_frame(2) [OF w4] t3 by simp
        from w2 w3 w4 have "submit_model_update p fx w =
            save_new_data_point p fx (w4\<lparr>global_update_count := ?n\<rparr>)"
          by (simp add: submit_model_update_def Let_def)
        with t4 that(2) show ?thesis by blast
      qed
    qed
  qed
qed

lemma submit_model_update_table:
  "hush_db (snd (submit_model_update p fx w)) = hush_db w \<or>
   (commit_ok fx \<and>
    (\<exists>r. hush_db (snd (submit_model_update p fx w)) = hush_db w @ [r] \<and>
         timestamp r = isoformat (now fx)))"
proof (cases rule: submit_model_update_cases [of p fx w])
  case (1 e u)
  then show ?thesis by simp
next
  case (2 u)
  with save_new_data_point_table [of p fx u] show ?thesis by simp
qed

lemma submit_model_update_failed_commit:
  assumes "\<not> commit_ok fx"
  shows "hush_db (snd (submit_model_update p fx w)) = hush_db w"
    and "fst (submit_model_update p fx w) \<noteq> Inr r"
proof -
  show "hush_db (snd (submit_model_update p fx w)) = hush_db w"
    using submit_model_update_table [of p fx w] assms by simp
  show "fst (submit_model_update p fx w) \<noteq> Inr r"
  proof (cases rule: submit_model_update_cases [of p fx w])
    case (1 e u)
    then show ?thesis by simp
  next
    case (2 u)
    with save_new_data_point_failed_commit(2) [OF assms, of p u r] show ?thesis by simp
  qed
qed

lemma submit_model_update_accepted_row:
  assumes "fst (submit_model_update p fx w) = Inr r"
  shows "hush_db (snd (submit_model_update p fx w)) = hush_db w @ [new_data_point r]"
    and "timestamp (new_data_point r) = isoformat (now fx)"
    and "commit_ok fx \<and> refresh_ok fx \<and> print_ok fx"
proof -
  from assms obtain u where u: "submit_model_update p fx w = save_new_data_point p fx u"
    and t: "hush_db u = hush_db w"
    by (cases rule: submit_model_update_cases [of p fx w]) simp_all
  from assms u have a: "fst (save_new_data_point p fx u) = Inr r" by simp
  show "hush_db (snd (submit_model_update p fx w)) = hush_db w @ [new_data_point r]"
    using save_new_data_point_accepted(1) [OF a] by (simp add: u t)
  show "timestamp (new_data_point r) = isoformat (now fx)"
    by (rule save_new_data_point_accepted(2) [OF a])
  show "commit_ok fx \<and> refresh_ok fx \<and> print_ok fx"
    by (rule save_new_data_point_accepted(3) [OF a])
qed

lemma process_start_globals:
  "global_model_weights (process_start tbl) ''text'' = Some 0.33"
  "global_model_weights (process_start tbl) ''typing'' = Some 0.33"
  "global_model_weights (process_start tbl) ''voice'' = Some 0.34"
  "global_update_count (process_start tbl) = 0"
  by (simp_all add: process_start_def lifespan_def module_globals_def Let_def)

lemma submit_model_update_globals:
  assumes "global_model_weights w ''text'' = Some t"
    and "global_model_weights w ''typing'' = Some ty"
    and "global_model_weights w ''voice'' = Some v"
    and "global_update_count w \<noteq> - 1"
  shows "global_model_weights (snd (submit_model_update p fx w)) ''text'' =
           Some ((t * of_int (global_update_count w) +
                  (dict_get (feature_attributions p) ''text'' 0 + laplace_text fx)) /
                 of_int (global_update_count w + 1))"
    and "global_model_weights (snd (submit_model_update p fx w)) ''typing'' =
           Some ((ty * of_int (global_update_count w) +
                  (dict_get (feature_attributions p) ''typing'' 0 + laplace_typing fx)) /
                 of_int (global_update_count w + 1))"
    and "global_model_weights (snd (submit_model_update p fx w)) ''voice'' =
           Some ((v * of_int (global_update_count w) +
                  (dict_get (feature_attributions p) ''voice'' 0 + laplace_voice fx)) /
                 of_int (global_update_count w + 1))"
    and "global_update_count (snd (submit_model_update p fx w)) = global_update_count w + 1"
  by (simp_all add: submit_model_update_present [OF assms] save_new_data_point_globals)

lemma process_start_invariant:
  "''text'' \<in> dom (global_model_weights (process_start tbl)) \<and>
   ''typing'' \<in> dom (global_model_weights (process_start tbl)) \<and>
   ''voice'' \<in> dom (global_model_weights (process_start tbl)) \<and>
   0 \<le> global_update_count (process_start tbl)"
proof (intro conjI)
  show "''text'' \<in> dom (global_model_weights (process_start tbl))"
    by (rule domI) (rule process_start_globals(1))
  show "''typing'' \<in> dom (global_model_weights (process_start tbl))"
    by (rule domI) (rule process_start_globals(2))
  show "''voice'' \<in> dom (global_model_weights (process_start tbl))"
    by (rule domI) (rule process_start_globals(3))
  show "0 \<le> global_update_count (process_start tbl)"
    by (simp only: process_start_globals(4))
qed

lemma reachable_invariant:
  assumes "reachable w"
  shows "''text'' \<in> dom (global_model_weights w) \<and>
         ''typing'' \<in> dom (global_model_weights w) \<and>
         ''voice'' \<in> dom (global_model_weights w) \<and> 0 \<le> global_update_count w"
  using assms
proof (induction rule: reachable.induct)
  case first_start
  show ?case by (rule process_start_invariant)
next
  case (restart w)
  show ?case by (rule process_start_invariant)
next
  case (update w payload fx)
  then obtain t ty v where k: "global_model_weights w ''text'' = Some t"
      "global_model_weights w ''typing'' = Some ty" "global_model_weights w ''voice'' = Some v"
    and c: "0 \<le> global_update_count w" by blast
  from c have c': "global_update_count w \<noteq> - 1" by arith
  show ?case
  proof (intro conjI)
    show "''text'' \<in> dom (global_model_weights (snd (submit_model_update payload fx w)))"
      by (rule domI) (rule submit_model_update_globals(1) [OF k c'])
    show "''typing'' \<in> dom (global_model_weights (snd (submit_model_update payload fx w)))"
      by (rule domI) (rule submit_model_update_globals(2) [OF k c'])
    show "''voice'' \<in> dom (global_model_weights (snd (submit_model_update payload fx w)))"
      by (rule domI) (rule submit_model_update_globals(3) [OF k c'])
    show "0 \<le> global_update_count (snd (submit_model_update payload fx w))"
      using c by (simp add: submit_model_update_globals(4) [OF k c'])
  qed
qed

subsection \<open>The guard of line 118\<close>

text \<open>
  Claim C4. The statement \<^verbatim>\<open>global_update_count = max(1, global_update_count)\<close> is dead
  code: in every reachable state, for every payload, noise draw, clock reading and commit
  outcome, the handler and the handler without that statement return the same result and
  leave the same state (weights, update count, table with the inserted snapshot, output).
\<close>

theorem guard_is_dead_code:
  assumes "reachable w"
  shows "submit_model_update payload fx w = submit_model_update_unguarded payload fx w"
proof -
  from reachable_invariant [OF assms]
  obtain t ty v where k: "global_model_weights w ''text'' = Some t"
      "global_model_weights w ''typing'' = Some ty" "global_model_weights w ''voice'' = Some v"
    and c: "0 \<le> global_update_count w" by blast
  from c have c': "global_update_count w \<noteq> - 1" by arith
  show ?thesis
    by (simp only: submit_model_update_present [OF k c'] submit_model_update_unguarded_present [OF k c'])
qed

theorem guard_is_dead_code_witness:
  "reachable (process_start []) \<and>
   submit_model_update \<lparr>feature_attributions = [''text'' \<mapsto> 1], user_id = ''anon-12345''\<rparr>
       \<lparr>laplace_text = 0.05, laplace_typing = - 0.02, laplace_voice = 0,
        now = \<lparr>year = 2025, month = 11, day = 2, hour = 9, minute = 30, second = 0, microsecond = 17\<rparr>,
        commit_ok = True, refresh_ok = True, print_ok = True\<rparr> (process_start []) =
   submit_model_update_unguarded \<lparr>feature_attributions = [''text'' \<mapsto> 1], user_id = ''anon-12345''\<rparr>
       \<lparr>laplace_text = 0.05, laplace_typing = - 0.02, laplace_voice = 0,
        now = \<lparr>year = 2025, month = 11, day = 2, hour = 9, minute = 30, second = 0, microsecond = 17\<rparr>,
        commit_ok = True, refresh_ok = True, print_ok = True\<rparr> (process_start [])"
  using guard_is_dead_code [OF first_start] first_start by blast

lemma submit_model_update_accepted_count:
  assumes "fst (submit_model_update payload fx w) = Inr r"
  shows "global_update_count (snd (submit_model_update payload fx w)) = global_update_count w + 1"
  using assms
  by (auto simp: submit_model_update_def Let_def save_new_data_point_globals fedavg_assign_frame
      split: sum.splits)

lemma submit_model_update_accepted:
  assumes "global_model_weights w ''text'' = Some t"
    and "global_model_weights w ''typing'' = Some ty"
    and "global_model_weights w ''voice'' = Some v"
    and "global_update_count w \<noteq> - 1"
    and "commit_ok fx \<and> refresh_ok fx \<and> print_ok fx"
  shows "\<exists>r. fst (submit_model_update p fx w) = Inr r \<and>
     avg_text_importance (new_data_point r) =
       (t * of_int (global_update_count w) +
          (dict_get (feature_attributions p) ''text'' 0 + laplace_text fx)) /
         of_int (global_update_count w + 1) \<and>
     avg_typing_importance (new_data_point r) =
       (ty * of_int (global_update_count w) +
          (dict_get (feature_attributions p) ''typing'' 0 + laplace_typing fx)) /
         of_int (global_update_count w + 1) \<and>
     avg_voice_importance (new_data_point r) =
       (v * of_int (global_update_count w) +
          (dict_get (feature_attributions p) ''voice'' 0 + laplace_voice fx)) /
         of_int (global_update_count w + 1)"
  using assms(5)
  by (simp add: submit_model_update_present [OF assms(1-4)] save_new_data_point_def Let_def
      insert_row_def)

subsection \<open>The update count\<close>

text \<open>
  Claim C8. \<^verbatim>\<open>global_update_count\<close> is 0 when the module is loaded and still 0 when
  start-up is over, and every accepted update (one whose handler returns a response)
  leaves it exactly one above its value before the request, whatever that value was.
\<close>

theorem update_count_incremented:
  "global_update_count (module_globals tbl) = 0 \<and>
   global_update_count (process_start tbl) = 0 \<and>
   (is_accepted (SubmitReply (fst (submit_model_update payload fx w))) \<longrightarrow>
      global_update_count (snd (submit_model_update payload fx w)) = global_update_count w + 1)"
proof (intro conjI impI)
  show "global_update_count (module_globals tbl) = 0"
    by (simp add: module_globals_def)
  show "global_update_count (process_start tbl) = 0"
    by (rule process_start_globals(4))
next
  assume "is_accepted (SubmitReply (fst (submit_model_update payload fx w)))"
  then obtain r where "fst (submit_model_update payload fx w) = Inr r"
    by (cases "fst (submit_model_update payload fx w)") simp_all
  then show "global_update_count (snd (submit_model_update payload fx w)) = global_update_count w + 1"
    by (rule submit_model_update_accepted_count)
qed

theorem update_count_incremented_witness:
  "is_accepted (SubmitReply (fst (submit_model_update
       \<lparr>feature_attributions = [''text'' \<mapsto> 0.7, ''typing'' \<mapsto> 0.2, ''voice'' \<mapsto> 0.1],
        user_id = ''anon-12345''\<rparr>
       \<lparr>laplace_text = 0, laplace_typing = 0, laplace_voice = 0,
        now = \<lparr>year = 2025, month = 11, day = 3, hour = 8, minute = 0, second = 0, microsecond = 0\<rparr>,
        commit_ok = True, refresh_ok = True, print_ok = True\<rparr> (process_start [])))) \<and>
   global_update_count (snd (submit_model_update
       \<lparr>feature_attributions = [''text'' \<mapsto> 0.7, ''typing'' \<mapsto> 0.2, ''voice'' \<mapsto> 0.1],
        user_id = ''anon-12345''\<rparr>
       \<lparr>laplace_text = 0, laplace_typing = 0, laplace_voice = 0,
        now = \<lparr>year = 2025, month = 11, day = 3, hour = 8, minute = 0, second = 0, microsecond = 0\<rparr>,
        commit_ok = True, refresh_ok = True, print_ok = True\<rparr> (process_start []))) = 1"
proof -
  let ?p = "\<lparr>feature_attributions = [''text'' \<mapsto> 0.7, ''typing'' \<mapsto> 0.2, ''voice'' \<mapsto> 0.1],
        user_id = ''anon-12345''\<rparr>"
  let ?fx = "\<lparr>laplace_text = 0, laplace_typing = 0, laplace_voice = 0,
        now = \<lparr>year = 2025, month = 11, day = 3, hour = 8, minute = 0, second = 0, microsecond = 0\<rparr>,
        commit_ok = True, refresh_ok = True, print_ok = True\<rparr>"
  have c: "global_update_count (process_start []) \<noteq> - 1"
    by (simp add: process_start_globals(4))
  have "commit_ok ?fx \<and> refresh_ok ?fx \<and> print_ok ?fx" by simp
  from submit_model_update_accepted [OF process_start_globals(1-3) c this]
  obtain r where "fst (submit_model_update ?p ?fx (process_start [])) = Inr r" by blast
  then have a: "is_accepted (SubmitReply (fst (submit_model_update ?p ?fx (process_start []))))"
    by simp
  with update_count_incremented [of "[]" ?p ?fx "process_start []"]
  show ?thesis by (simp add: process_start_globals(4))
qed

subsection \<open>Folding a contribution into the running average\<close>

text \<open>
  Claim C1. In a state with update count \<open>c\<close> (other than \<open>- 1\<close>, which no run reaches)
  and old averages \<open>t\<close>, \<open>ty\<close>, \<open>v\<close>, the handler leaves, for each feature, the average
  \<open>(old * (n - 1) + noisy) / n\<close> with \<open>n = c + 1\<close>, where \<open>noisy\<close> is the payload's value
  (0 when absent) plus the noise drawn for that feature. Consequently, from a fresh start
  on any table and with all noise 0, when commit, refresh and print go through for both
  requests, a first accepted update contributing \<open>a\<close> returns the
  average \<open>a\<close> (the initial weights 0.33, 0.33, 0.34 drop out) and a second one
  contributing \<open>b\<close> returns \<open>(a + b) / 2\<close>, for each of the three features.
\<close>

theorem fedavg_incremental_mean:
  "(global_model_weights w ''text'' = Some t \<and>
    global_model_weights w ''typing'' = Some ty \<and>
    global_model_weights w ''voice'' = Some v \<and>
    global_update_count w = c \<and> c \<noteq> - 1 \<and> n = c + 1 \<longrightarrow>
      global_model_weights (snd (submit_model_update p fx w)) ''text'' =
        Some ((t * of_int (n - 1) + (dict_get (feature_attributions p) ''text'' 0 + laplace_text fx)) / of_int n) \<and>
      global_model_weights (snd (submit_model_update p fx w)) ''typing'' =
        Some ((ty * of_int (n - 1) + (dict_get (feature_attributions p) ''typing'' 0 + laplace_typing fx)) / of_int n) \<and>
      global_model_weights (snd (submit_model_update p fx w)) ''voice'' =
        Some ((v * of_int (n - 1) + (dict_get (feature_attributions p) ''voice'' 0 + laplace_voice fx)) / of_int n)) \<and>
   (laplace_text fx1 = 0 \<and> laplace_typing fx1 = 0 \<and> laplace_voice fx1 = 0 \<and>
    commit_ok fx1 \<and> refresh_ok fx1 \<and> print_ok fx1 \<and>
    laplace_text fx2 = 0 \<and> laplace_typing fx2 = 0 \<and> laplace_voice fx2 = 0 \<and>
    commit_ok fx2 \<and> refresh_ok fx2 \<and> print_ok fx2 \<longrightarrow>
      (\<exists>r1 r2.
         fst (submit_model_update p1 fx1 (process_start tbl)) = Inr r1 \<and>
         fst (submit_model_update p2 fx2 (snd (submit_model_update p1 fx1 (process_start tbl)))) = Inr r2 \<and>
         avg_text_importance (new_data_point r1) = dict_get (feature_attributions p1) ''text'' 0 \<and>
         avg_typing_importance (new_data_point r1) = dict_get (feature_attributions p1) ''typing'' 0 \<and>
         avg_voice_importance (new_data_point r1) = dict_get (feature_attributions p1) ''voice'' 0 \<and>
         avg_text_importance (new_data_point r2) =
           (dict_get (feature_attributions p1) ''text'' 0 + dict_get (feature_attributions p2) ''text'' 0) / 2 \<and>
         avg_typing_importance (new_data_point r2) =
           (dict_get (feature_attributions p1) ''typing'' 0 + dict_get (feature_attributions p2) ''typing'' 0) / 2 \<and>
         avg_voice_importance (new_data_point r2) =
           (dict_get (feature_attributions p1) ''voice'' 0 + dict_get (feature_attributions p2) ''voice'' 0) / 2))"
proof (intro conjI impI)
  assume a: "global_model_weights w ''text'' = Some t \<and>
    global_model_weights w ''typing'' = Some ty \<and>
    global_model_weights w ''voice'' = Some v \<and>
    global_update_count w = c \<and> c \<noteq> - 1 \<and> n = c + 1"
  then have k: "global_model_weights w ''text'' = Some t" "global_model_weights w ''typing'' = Some ty"
      "global_model_weights w ''voice'' = Some v" and c: "global_update_count w \<noteq> - 1"
    and n: "n - 1 = global_update_count w" "n = global_update_count w + 1"
    by simp_all
  show "global_model_weights (snd (submit_model_update p fx w)) ''text'' =
        Some ((t * of_int (n - 1) + (dict_get (feature_attributions p) ''text'' 0 + laplace_text fx)) / of_int n)"
    unfolding n(1) unfolding n(2) by (rule submit_model_update_globals(1) [OF k c])
  show "global_model_weights (snd (submit_model_update p fx w)) ''typing'' =
        Some ((ty * of_int (n - 1) + (dict_get (feature_attributions p) ''typing'' 0 + laplace_typing fx)) / of_int n)"
    unfolding n(1) unfolding n(2) by (rule submit_model_update_globals(2) [OF k c])
  show "global_model_weights (snd (submit_model_update p fx w)) ''voice'' =
        Some ((v * of_int (n - 1) + (dict_get (feature_attributions p) ''voice'' 0 + laplace_voice fx)) / of_int n)"
    unfolding n(1) unfolding n(2) by (rule submit_model_update_globals(3) [OF k c])
next
  assume a: "laplace_text fx1 = 0 \<and> laplace_typing fx1 = 0 \<and> laplace_voice fx1 = 0 \<and>
    commit_ok fx1 \<and> refresh_ok fx1 \<and> print_ok fx1 \<and>
    laplace_text fx2 = 0 \<and> laplace_typing fx2 = 0 \<and> laplace_voice fx2 = 0 \<and>
    commit_ok fx2 \<and> refresh_ok fx2 \<and> print_ok fx2"
  let ?w0 = "process_start tbl"
  let ?w1 = "snd (submit_model_update p1 fx1 ?w0)"
  have c0: "global_update_count ?w0 \<noteq> - 1" by (simp add: process_start_globals(4))
  note k0 = process_start_globals(1-3) [of tbl]
  from a have ok1: "commit_ok fx1 \<and> refresh_ok fx1 \<and> print_ok fx1"
    and ok2: "commit_ok fx2 \<and> refresh_ok fx2 \<and> print_ok fx2" by simp_all
  from submit_model_update_accepted [OF k0 c0 ok1, of p1]
  obtain r1 where r1: "fst (submit_model_update p1 fx1 ?w0) = Inr r1"
    and r1t: "avg_text_importance (new_data_point r1) = dict_get (feature_attributions p1) ''text'' 0"
    and r1y: "avg_typing_importance (new_data_point r1) = dict_get (feature_attributions p1) ''typing'' 0"
    and r1v: "avg_voice_importance (new_data_point r1) = dict_get (feature_attributions p1) ''voice'' 0"
    using a by (auto simp: process_start_globals(4))
  have k1: "global_model_weights ?w1 ''text'' = Some (dict_get (feature_attributions p1) ''text'' 0)"
    "global_model_weights ?w1 ''typing'' = Some (dict_get (feature_attributions p1) ''typing'' 0)"
    "global_model_weights ?w1 ''voice'' = Some (dict_get (feature_attributions p1) ''voice'' 0)"
    using a by (simp_all add: submit_model_update_globals(1-3) [OF k0 c0] process_start_globals(4))
  have c1v: "global_update_count ?w1 = 1"
    by (simp add: submit_model_update_globals(4) [OF k0 c0] process_start_globals(4))
  then have c1: "global_update_count ?w1 \<noteq> - 1" by simp
  from submit_model_update_accepted [OF k1 c1 ok2, of p2]
  obtain r2 where r2: "fst (submit_model_update p2 fx2 ?w1) = Inr r2"
    and r2t: "avg_text_importance (new_data_point r2) =
           (dict_get (feature_attributions p1) ''text'' 0 + dict_get (feature_attributions p2) ''text'' 0) / 2"
    and r2y: "avg_typing_importance (new_data_point r2) =
           (dict_get (feature_attributions p1) ''typing'' 0 + dict_get (feature_attributions p2) ''typing'' 0) / 2"
    and r2v: "avg_voice_importance (new_data_point r2) =
           (dict_get (feature_attributions p1) ''voice'' 0 + dict_get (feature_attributions p2) ''voice'' 0) / 2"
    using a by (auto simp: c1v)
  show "\<exists>r1 r2.
         fst (submit_model_update p1 fx1 (process_start tbl)) = Inr r1 \<and>
         fst (submit_model_update p2 fx2 (snd (submit_model_update p1 fx1 (process_start tbl)))) = Inr r2 \<and>
         avg_text_importance (new_data_point r1) = dict_get (feature_attributions p1) ''text'' 0 \<and>
         avg_typing_importance (new_data_point r1) = dict_get (feature_attributions p1) ''typing'' 0 \<and>
         avg_voice_importance (new_data_point r1) = dict_get (feature_attributions p1) ''voice'' 0 \<and>
         avg_text_importance (new_data_point r2) =
           (dict_get (feature_attributions p1) ''text'' 0 + dict_get (feature_attributions p2) ''text'' 0) / 2 \<and>
         avg_typing_importance (new_data_point r2) =
           (dict_get (feature_attributions p1) ''typing'' 0 + dict_get (feature_attributions p2) ''typing'' 0) / 2 \<and>
         avg_voice_importance (new_data_point r2) =
           (dict_get (feature_attributions p1) ''voice'' 0 + dict_get (feature_attributions p2) ''voice'' 0) / 2"
    using r1 r1t r1y r1v r2 r2t r2y r2v by blast
qed


theorem fedavg_incremental_mean_witness:
  "(global_model_weights (process_start []) ''text'' = Some 0.33 \<and>
    global_model_weights (process_start []) ''typing'' = Some 0.33 \<and>
    global_model_weights (process_start []) ''voice'' = Some 0.34 \<and>
    global_update_count (process_start []) = 0 \<and> (0::int) \<noteq> - 1 \<and> (1::int) = 0 + 1) \<and>
   global_model_weights (snd (submit_model_update
       \<lparr>feature_attributions = [''text'' \<mapsto> 0.7, ''typing'' \<mapsto> 0.2], user_id = ''anon-12345''\<rparr>
       \<lparr>laplace_text = 0.05, laplace_typing = - 0.02, laplace_voice = 0.01,
        now = \<lparr>year = 2025, month = 11, day = 3, hour = 8, minute = 0, second = 0, microsecond = 0\<rparr>,
        commit_ok = True, refresh_ok = True, print_ok = True\<rparr> (process_start []))) ''text'' = Some 0.75 \<and>
   (\<exists>r1 r2.
      fst (submit_model_update
         \<lparr>feature_attributions = [''text'' \<mapsto> 1, ''typing'' \<mapsto> 0, ''voice'' \<mapsto> 0], user_id = ''a''\<rparr>
         \<lparr>laplace_text = 0, laplace_typing = 0, laplace_voice = 0,
          now = \<lparr>year = 2025, month = 11, day = 3, hour = 8, minute = 0, second = 0, microsecond = 0\<rparr>,
          commit_ok = True, refresh_ok = True, print_ok = True\<rparr> (process_start [])) = Inr r1 \<and>
      fst (submit_model_update
         \<lparr>feature_attributions = [''text'' \<mapsto> 0, ''typing'' \<mapsto> 1], user_id = ''b''\<rparr>
         \<lparr>laplace_text = 0, laplace_typing = 0, laplace_voice = 0,
          now = \<lparr>year = 2025, month = 11, day = 3, hour = 8, minute = 0, second = 1, microsecond = 0\<rparr>,
          commit_ok = True, refresh_ok = True, print_ok = True\<rparr>
         (snd (submit_model_update
           \<lparr>feature_attributions = [''text'' \<mapsto> 1, ''typing'' \<mapsto> 0, ''voice'' \<mapsto> 0], user_id = ''a''\<rparr>
           \<lparr>laplace_text = 0, laplace_typing = 0, laplace_voice = 0,
            now = \<lparr>year = 2025, month = 11, day = 3, hour = 8, minute = 0, second = 0, microsecond = 0\<rparr>,
            commit_ok = True, refresh_ok = True, print_ok = True\<rparr> (process_start [])))) = Inr r2 \<and>
      avg_text_importance (new_data_point r1) = 1 \<and>
      avg_text_importance (new_data_point r2) = 1 / 2 \<and>
      avg_typing_importance (new_data_point r2) = 1 / 2 \<and>
      avg_voice_importance (new_data_point r2) = 0)"
  using fedavg_incremental_mean [where w = "process_start []" and t = "0.33" and ty = "0.33"
      and v = "0.34" and c = 0 and n = 1
      and p = "\<lparr>feature_attributions = [''text'' \<mapsto> 0.7, ''typing'' \<mapsto> 0.2], user_id = ''anon-12345''\<rparr>"
      and fx = "\<lparr>laplace_text = 0.05, laplace_typing = - 0.02, laplace_voice = 0.01,
        now = \<lparr>year = 2025, month = 11, day = 3, hour = 8, minute = 0, second = 0, microsecond = 0\<rparr>,
        commit_ok = True, refresh_ok = True, print_ok = True\<rparr>"
      and tbl = "[]"
      and ?p1.0 = "\<lparr>feature_attributions = [''text'' \<mapsto> 1, ''typing'' \<mapsto> 0, ''voice'' \<mapsto> 0], user_id = ''a''\<rparr>"
      and ?fx1.0 = "\<lparr>laplace_text = 0, laplace_typing = 0, laplace_voice = 0,
          now = \<lparr>year = 2025, month = 11, day = 3, hour = 8, minute = 0, second = 0, microsecond = 0\<rparr>,
          commit_ok = True, refresh_ok = True, print_ok = True\<rparr>"
      and ?p2.0 = "\<lparr>feature_attributions = [''text'' \<mapsto> 0, ''typing'' \<mapsto> 1], user_id = ''b''\<rparr>"
      and ?fx2.0 = "\<lparr>laplace_text = 0, laplace_typing = 0, laplace_voice = 0,
          now = \<lparr>year = 2025, month = 11, day = 3, hour = 8, minute = 0, second = 1, microsecond = 0\<rparr>,
          commit_ok = True, refresh_ok = True, print_ok = True\<rparr>"]
  by (auto simp add: process_start_globals dict_get_def)

subsection \<open>What the handler reads of the payload\<close>





text \<open>
  Claim C7. A known feature whose key is absent from \<^verbatim>\<open>feature_attributions\<close> contributes
  exactly 0 before noise. The value read for it is 0; what the handler folds into that
  feature's average is \<open>0 + noise\<close>, so that with old average \<open>old\<close> and update count \<open>c\<close>
  (other than \<open>- 1\<close>) the new average is \<open>(old * c + (0 + noise)) / (c + 1)\<close>, which is also
  the value in the returned snapshot when the request is accepted; and the handler
  behaves on the whole exactly as on the payload that carries the key with value 0.
\<close>

theorem missing_feature_contributes_zero:
  assumes "k \<in> {''text'', ''typing'', ''voice''}"
    and "feature_attributions payload k = None"
  shows "dict_get (feature_attributions payload) k 0 = 0 \<and>
         submit_model_update payload fx w =
         submit_model_update (payload\<lparr>feature_attributions := (feature_attributions payload)(k \<mapsto> 0)\<rparr>) fx w \<and>
         (global_model_weights w ''text'' = Some t \<and>
          global_model_weights w ''typing'' = Some ty \<and>
          global_model_weights w ''voice'' = Some v \<and>
          global_update_count w = c \<and> c \<noteq> - 1 \<longrightarrow>
            global_model_weights (snd (submit_model_update payload fx w)) k =
              Some (((if k = ''text'' then t else if k = ''typing'' then ty else v) * of_int c +
                     (0 + (if k = ''text'' then laplace_text fx
                           else if k = ''typing'' then laplace_typing fx
                           else laplace_voice fx))) / of_int (c + 1)) \<and>
            (case fst (submit_model_update payload fx w) of
               Inl e \<Rightarrow> True
             | Inr r \<Rightarrow>
                 (if k = ''text'' then avg_text_importance (new_data_point r)
                  else if k = ''typing'' then avg_typing_importance (new_data_point r)
                  else avg_voice_importance (new_data_point r)) =
                 ((if k = ''text'' then t else if k = ''typing'' then ty else v) * of_int c +
                  (0 + (if k = ''text'' then laplace_text fx
                        else if k = ''typing'' then laplace_typing fx
                        else laplace_voice fx))) / of_int (c + 1)))"
proof (intro conjI impI)
  show z: "dict_get (feature_attributions payload) k 0 = 0"
    using assms(2) by (simp add: dict_get_def)
  have e: "dict_get ((feature_attributions payload)(k \<mapsto> 0)) j 0 = dict_get (feature_attributions payload) j 0" for j
    using assms(2) by (simp add: dict_get_def)
  have s: "save_new_data_point (payload\<lparr>feature_attributions := m\<rparr>) fx u = save_new_data_point payload fx u" for m u
    by (simp add: save_new_data_point_def Let_def split: option.splits)
  show "submit_model_update payload fx w =
         submit_model_update (payload\<lparr>feature_attributions := (feature_attributions payload)(k \<mapsto> 0)\<rparr>) fx w"
    by (simp add: submit_model_update_def Let_def e s split: sum.splits)
  assume a: "global_model_weights w ''text'' = Some t \<and>
          global_model_weights w ''typing'' = Some ty \<and>
          global_model_weights w ''voice'' = Some v \<and>
          global_update_count w = c \<and> c \<noteq> - 1"
  then have ks: "global_model_weights w ''text'' = Some t" "global_model_weights w ''typing'' = Some ty"
      "global_model_weights w ''voice'' = Some v" and c: "global_update_count w \<noteq> - 1"
    and cc: "global_update_count w = c"
    by simp_all
  note g = submit_model_update_globals(1-3) [OF ks c, of payload fx]
  from assms(1) z g
  show "global_model_weights (snd (submit_model_update payload fx w)) k =
              Some (((if k = ''text'' then t else if k = ''typing'' then ty else v) * of_int c +
                     (0 + (if k = ''text'' then laplace_text fx
                           else if k = ''typing'' then laplace_typing fx
                           else laplace_voice fx))) / of_int (c + 1))"
    by (auto simp: cc)
  have "(if k = ''text'' then avg_text_importance (new_data_point r)
                  else if k = ''typing'' then avg_typing_importance (new_data_point r)
                  else avg_voice_importance (new_data_point r)) =
                 ((if k = ''text'' then t else if k = ''typing'' then ty else v) * of_int c +
                  (0 + (if k = ''text'' then laplace_text fx
                        else if k = ''typing'' then laplace_typing fx
                        else laplace_voice fx))) / of_int (c + 1)"
    if r: "fst (submit_model_update payload fx w) = Inr r" for r
  proof -
    from submit_model_update_accepted_row(3) [OF r]
    have ok: "commit_ok fx \<and> refresh_ok fx \<and> print_ok fx" .
    from submit_model_update_accepted [OF ks c ok, of payload] r assms(1) z
    show ?thesis by (auto simp: cc)
  qed
  note returned = this
  show "(case fst (submit_model_update payload fx w) of
               Inl e \<Rightarrow> True
             | Inr r \<Rightarrow>
                 (if k = ''text'' then avg_text_importance (new_data_point r)
                  else if k = ''typing'' then avg_typing_importance (new_data_point r)
                  else avg_voice_importance (new_data_point r)) =
                 ((if k = ''text'' then t else if k = ''typing'' then ty else v) * of_int c +
                  (0 + (if k = ''text'' then laplace_text fx
                        else if k = ''typing'' then laplace_typing fx
                        else laplace_voice fx))) / of_int (c + 1))"
  proof (cases "fst (submit_model_update payload fx w)")
    case (Inl e)
    then show ?thesis by simp
  next
    case (Inr r)
    from returned [OF Inr] show ?thesis by (simp only: Inr sum.case)
  qed
qed

theorem missing_feature_contributes_zero_witness:
  "''voice'' \<in> {''text'', ''typing'', ''voice''} \<and>
   feature_attributions
     \<lparr>feature_attributions = [''text'' \<mapsto> 0.7, ''typing'' \<mapsto> 0.2], user_id = ''anon-12345''\<rparr>
     ''voice'' = None \<and>
   global_model_weights
     \<lparr>global_model_weights = [''text'' \<mapsto> 0.6, ''typing'' \<mapsto> 0.3, ''voice'' \<mapsto> 0.1],
      global_update_count = 3, hush_db = add_all db_data [], stdout = []\<rparr> ''voice'' = Some 0.1 \<and>
   global_model_weights (snd (submit_model_update
     \<lparr>feature_attributions = [''text'' \<mapsto> 0.7, ''typing'' \<mapsto> 0.2], user_id = ''anon-12345''\<rparr>
     \<lparr>laplace_text = 0.05, laplace_typing = - 0.02, laplace_voice = 0.02,
      now = \<lparr>year = 2025, month = 11, day = 3, hour = 8, minute = 0, second = 0, microsecond = 0\<rparr>,
      commit_ok = True, refresh_ok = True, print_ok = True\<rparr>
     \<lparr>global_model_weights = [''text'' \<mapsto> 0.6, ''typing'' \<mapsto> 0.3, ''voice'' \<mapsto> 0.1],
      global_update_count = 3, hush_db = add_all db_data [], stdout = []\<rparr>)) ''voice'' =
     Some 0.08 \<and>
   submit_model_update
     \<lparr>feature_attributions = [''text'' \<mapsto> 0.7, ''typing'' \<mapsto> 0.2], user_id = ''anon-12345''\<rparr>
     \<lparr>laplace_text = 0.05, laplace_typing = - 0.02, laplace_voice = 0.02,
      now = \<lparr>year = 2025, month = 11, day = 3, hour = 8, minute = 0, second = 0, microsecond = 0\<rparr>,
      commit_ok = True, refresh_ok = True, print_ok = True\<rparr>
     \<lparr>global_model_weights = [''text'' \<mapsto> 0.6, ''typing'' \<mapsto> 0.3, ''voice'' \<mapsto> 0.1],
      global_update_count = 3, hush_db = add_all db_data [], stdout = []\<rparr> =
   submit_model_update
     \<lparr>feature_attributions = [''text'' \<mapsto> 0.7, ''typing'' \<mapsto> 0.2, ''voice'' \<mapsto> 0], user_id = ''anon-12345''\<rparr>
     \<lparr>laplace_text = 0.05, laplace_typing = - 0.02, laplace_voice = 0.02,
      now = \<lparr>year = 2025, month = 11, day = 3, hour = 8, minute = 0, second = 0, microsecond = 0\<rparr>,
      commit_ok = True, refresh_ok = True, print_ok = True\<rparr>
     \<lparr>global_model_weights = [''text'' \<mapsto> 0.6, ''typing'' \<mapsto> 0.3, ''voice'' \<mapsto> 0.1],
      global_update_count = 3, hush_db = add_all db_data [], stdout = []\<rparr>"
proof -
  let ?p = "\<lparr>feature_attributions = [''text'' \<mapsto> 0.7, ''typing'' \<mapsto> (0.2::real)], user_id = ''anon-12345''\<rparr>"
  let ?fx = "\<lparr>laplace_text = 0.05, laplace_typing = - 0.02, laplace_voice = 0.02,
      now = \<lparr>year = 2025, month = 11, day = 3, hour = 8, minute = 0, second = 0, microsecond = 0\<rparr>,
      commit_ok = True, refresh_ok = True, print_ok = True\<rparr>"
  let ?w = "\<lparr>global_model_weights = [''text'' \<mapsto> 0.6, ''typing'' \<mapsto> 0.3, ''voice'' \<mapsto> (0.1::real)],
      global_update_count = 3, hush_db = add_all db_data [], stdout = []\<rparr>"
  have k: "''voice'' \<in> {''text'', ''typing'', ''voice''}" by simp
  have n: "feature_attributions ?p ''voice'' = None" by simp
  have h: "global_model_weights ?w ''text'' = Some 0.6 \<and>
          global_model_weights ?w ''typing'' = Some 0.3 \<and>
          global_model_weights ?w ''voice'' = Some 0.1 \<and>
          global_update_count ?w = 3 \<and> (3::int) \<noteq> - 1"
    by simp
  note th = missing_feature_contributes_zero [OF k n, of ?fx ?w "0.6" "0.3" "0.1" 3]
  from th [THEN conjunct2, THEN conjunct2, THEN mp, OF h, THEN conjunct1]
  have wv: "global_model_weights (snd (submit_model_update ?p ?fx ?w)) ''voice'' = Some 0.08"
    by simp
  from th [THEN conjunct2, THEN conjunct1]
  have eq: "submit_model_update ?p ?fx ?w =
      submit_model_update
        \<lparr>feature_attributions = [''text'' \<mapsto> 0.7, ''typing'' \<mapsto> 0.2, ''voice'' \<mapsto> 0], user_id = ''anon-12345''\<rparr>
        ?fx ?w"
    by simp
  from h have hv: "global_model_weights ?w ''voice'' = Some 0.1" by blast
  from k n hv wv eq show ?thesis by blast
qed

subsection \<open>Bootstrap\<close>

lemma add_all_db_data_empty:
  "add_all db_data [] =
     [\<lparr>id_col = Some 1, timestamp = ''2025-11-01T10:00:00Z'', avg_text_importance = 0.4,
        avg_typing_importance = 0.4, avg_voice_importance = 0.2\<rparr>,
      \<lparr>id_col = Some 2, timestamp = ''2025-11-01T11:00:00Z'', avg_text_importance = 0.42,
        avg_typing_importance = 0.38, avg_voice_importance = 0.2\<rparr>,
      \<lparr>id_col = Some 3, timestamp = ''2025-11-01T12:00:00Z'', avg_text_importance = 0.38,
        avg_typing_importance = 0.45, avg_voice_importance = 0.17\<rparr>]"
  by (simp add: add_all_def db_data_def insert_row_def)

lemma lifespan_table:
  "hush_db (lifespan w) = (if hush_db w = [] then add_all db_data [] else hush_db w)"
  by (simp add: lifespan_def Let_def)

text \<open>
  Claim C5. Start-up on an empty store leaves exactly the three literal seed rows, in
  this order and with the keys 1, 2, 3 the store assigns; start-up on a non-empty store
  leaves the table as it is, so running it a second time adds nothing.
\<close>

theorem bootstrap_seeds_iff_empty:
  "hush_db (lifespan (w\<lparr>hush_db := []\<rparr>)) =
     [\<lparr>id_col = Some 1, timestamp = ''2025-11-01T10:00:00Z'', avg_text_importance = 0.4,
        avg_typing_importance = 0.4, avg_voice_importance = 0.2\<rparr>,
      \<lparr>id_col = Some 2, timestamp = ''2025-11-01T11:00:00Z'', avg_text_importance = 0.42,
        avg_typing_importance = 0.38, avg_voice_importance = 0.2\<rparr>,
      \<lparr>id_col = Some 3, timestamp = ''2025-11-01T12:00:00Z'', avg_text_importance = 0.38,
        avg_typing_importance = 0.45, avg_voice_importance = 0.17\<rparr>] \<and>
   hush_db (lifespan (w\<lparr>hush_db := r # rs\<rparr>)) = r # rs \<and>
   hush_db (lifespan (lifespan w)) = hush_db (lifespan w)"
proof (intro conjI)
  show "hush_db (lifespan (w\<lparr>hush_db := []\<rparr>)) =
     [\<lparr>id_col = Some 1, timestamp = ''2025-11-01T10:00:00Z'', avg_text_importance = 0.4,
        avg_typing_importance = 0.4, avg_voice_importance = 0.2\<rparr>,
      \<lparr>id_col = Some 2, timestamp = ''2025-11-01T11:00:00Z'', avg_text_importance = 0.42,
        avg_typing_importance = 0.38, avg_voice_importance = 0.2\<rparr>,
      \<lparr>id_col = Some 3, timestamp = ''2025-11-01T12:00:00Z'', avg_text_importance = 0.38,
        avg_typing_importance = 0.45, avg_voice_importance = 0.17\<rparr>]"
    by (simp add: lifespan_table add_all_db_data_empty)
  show "hush_db (lifespan (w\<lparr>hush_db := r # rs\<rparr>)) = r # rs"
    by (simp add: lifespan_table)
  show "hush_db (lifespan (lifespan w)) = hush_db (lifespan w)"
    by (simp add: lifespan_table add_all_db_data_empty)
qed

subsection \<open>The query handler\<close>

text \<open>
  Claim C9. The query handler returns every stored row, each exactly once and unchanged
  (the same multiset, the same number of rows: nothing filtered, cut or paged), in
  non-decreasing order of the timestamp strings; on an empty store it returns the empty
  list.
\<close>

theorem dashboard_returns_all_rows_sorted:
  "mset (get_dashboard_data w) = mset (hush_db w) \<and>
   length (get_dashboard_data w) = length (hush_db w) \<and>
   sorted (map timestamp (get_dashboard_data w)) \<and>
   get_dashboard_data (w\<lparr>hush_db := []\<rparr>) = []"
  by (simp add: get_dashboard_data_def)

subsection \<open>The store only grows\<close>

lemma process_start_table:
  "hush_db (process_start tbl) = (if tbl = [] then add_all db_data [] else tbl)"
  by (simp add: process_start_def module_globals_def lifespan_table)

text \<open>
  In a reachable state the handler gets to the commit, so the three outcomes decide what
  happens: the row is written exactly when the commit goes through, and the request is
  accepted exactly when commit, refresh and print all go through.
\<close>

lemma submit_model_update_reachable:
  assumes "reachable w"
  shows "is_accepted (SubmitReply (fst (submit_model_update p fx w))) \<longleftrightarrow>
           commit_ok fx \<and> refresh_ok fx \<and> print_ok fx"
    and "\<not> commit_ok fx \<Longrightarrow> fst (submit_model_update p fx w) = Inl StoreFault"
    and "hush_db (snd (submit_model_update p fx w)) =
           (if commit_ok fx
            then hush_db w @ [last (hush_db (snd (submit_model_update p fx w)))]
            else hush_db w)"
    and "commit_ok fx \<Longrightarrow>
           map timestamp (hush_db (snd (submit_model_update p fx w))) =
           map timestamp (hush_db w) @ [isoformat (now fx)]"
    and "global_update_count (snd (submit_model_update p fx w)) = global_update_count w + 1"
proof -
  from reachable_invariant [OF assms]
  obtain t ty v where k: "global_model_weights w ''text'' = Some t"
      "global_model_weights w ''typing'' = Some ty" "global_model_weights w ''voice'' = Some v"
    and c: "0 \<le> global_update_count w" by blast
  from c have c': "global_update_count w \<noteq> - 1" by arith
  note e = submit_model_update_present [OF k c'] save_new_data_point_def Let_def insert_row_def
  show "is_accepted (SubmitReply (fst (submit_model_update p fx w))) \<longleftrightarrow>
           commit_ok fx \<and> refresh_ok fx \<and> print_ok fx"
    by (simp add: e)
  show "\<not> commit_ok fx \<Longrightarrow> fst (submit_model_update p fx w) = Inl StoreFault"
    by (simp add: e)
  show "hush_db (snd (submit_model_update p fx w)) =
           (if commit_ok fx
            then hush_db w @ [last (hush_db (snd (submit_model_update p fx w)))]
            else hush_db w)"
    by (simp add: e)
  show "commit_ok fx \<Longrightarrow>
           map timestamp (hush_db (snd (submit_model_update p fx w))) =
           map timestamp (hush_db w) @ [isoformat (now fx)]"
    by (simp add: e)
  show "global_update_count (snd (submit_model_update p fx w)) = global_update_count w + 1"
    by (rule submit_model_update_globals(4) [OF k c'])
qed

lemma reachable_table_nonempty:
  assumes "reachable w"
  shows "hush_db w \<noteq> []"
  using assms
proof (induction rule: reachable.induct)
  case first_start
  show ?case by (simp add: process_start_table add_all_db_data_empty)
next
  case (restart w)
  show ?case by (simp add: process_start_table add_all_db_data_empty)
next
  case (update w payload fx)
  with submit_model_update_table [of payload fx w] show ?case by auto
qed

lemma handle_reachable:
  assumes "reachable w"
  shows "reachable (snd (handle rq w))"
proof (cases rq)
  case Restart
  with assms show ?thesis by (simp add: reachable.restart)
next
  case ReadRoot
  with assms show ?thesis by simp
next
  case (SubmitUpdate p fx)
  with reachable.update [OF assms, of p fx] show ?thesis by (simp add: split_beta)
next
  case GetDashboardData
  with assms show ?thesis by simp
qed

lemma handle_prefix: "prefix (hush_db w) (hush_db (snd (handle rq w)))"
proof (cases rq)
  case Restart
  then show ?thesis by (simp add: process_start_table)
next
  case ReadRoot
  then show ?thesis by simp
next
  case (SubmitUpdate p fx)
  with submit_model_update_table [of p fx w] show ?thesis
    by (auto simp: split_beta)
next
  case GetDashboardData
  then show ?thesis by simp
qed

lemma serve_prefix: "prefix (hush_db w) (hush_db (snd (serve rqs w)))"
proof (induction rqs arbitrary: w)
  case Nil
  show ?case by simp
next
  case (Cons rq rqs)
  have "prefix (hush_db w) (hush_db (snd (handle rq w)))" by (rule handle_prefix)
  also have "prefix \<dots> (hush_db (snd (serve rqs (snd (handle rq w)))))" by (rule Cons.IH)
  finally show ?case by (simp add: split_beta)
qed

lemma handle_counts:
  assumes "reachable w"
  shows "length (hush_db (snd (handle rq w))) = length (hush_db w) + committed [rq]"
    and "is_accepted (fst (handle rq w)) \<longleftrightarrow>
           list_ex (\<lambda>fx. commit_ok fx \<and> refresh_ok fx \<and> print_ok fx) (update_effects [rq])"
proof -
  note ne = reachable_table_nonempty [OF assms]
  show "length (hush_db (snd (handle rq w))) = length (hush_db w) + committed [rq]"
  proof (cases rq)
    case (SubmitUpdate p fx)
    have "length (hush_db (snd (submit_model_update p fx w))) =
          length (hush_db w) + (if commit_ok fx then 1 else 0)"
      by (subst submit_model_update_reachable(3) [OF assms]) simp
    then show ?thesis by (simp add: SubmitUpdate split_beta committed_def)
  qed (simp_all add: committed_def process_start_table ne)
  show "is_accepted (fst (handle rq w)) \<longleftrightarrow>
           list_ex (\<lambda>fx. commit_ok fx \<and> refresh_ok fx \<and> print_ok fx) (update_effects [rq])"
  proof (cases rq)
    case (SubmitUpdate p fx)
    then show ?thesis
      by (simp add: split_beta submit_model_update_reachable(1) [OF assms])
  qed simp_all
qed

lemma serve_counts:
  assumes "reachable w"
  shows "length (hush_db (snd (serve rqs w))) = length (hush_db w) + committed rqs \<and>
         accepted (fst (serve rqs w)) =
           length (filter (\<lambda>fx. commit_ok fx \<and> refresh_ok fx \<and> print_ok fx) (update_effects rqs))"
  using assms
proof (induction rqs arbitrary: w)
  case Nil
  show ?case by (simp add: accepted_def committed_def)
next
  case (Cons rq rqs)
  note r = handle_reachable [OF Cons.prems, of rq]
  note h = handle_counts [OF Cons.prems, of rq]
  from Cons.IH [OF r] h show ?case
    by (cases rq) (simp_all add: split_beta accepted_def committed_def)
qed

text \<open>
  Claim C6. Over any sequence of restarts and requests the table after is the table
  before followed by new rows: no row is removed or changed and the row count never
  decreases. An accepted update appends exactly one row, the one it returns. After a
  first start on an empty store the row count is 3 plus the number of committed updates
  of the sequence; when no request of the sequence fails after its commit (every
  committed update is accepted), that is 3 plus the number of accepted updates.
\<close>

theorem store_append_only:
  "prefix (hush_db w) (hush_db (snd (serve rqs w))) \<and>
   length (hush_db w) \<le> length (hush_db (snd (serve rqs w))) \<and>
   (case fst (submit_model_update p fx w) of
      Inl e \<Rightarrow> True
    | Inr r \<Rightarrow> hush_db (snd (submit_model_update p fx w)) = hush_db w @ [new_data_point r]) \<and>
   length (hush_db (snd (serve rqs (process_start [])))) = 3 + committed rqs \<and>
   (list_all (\<lambda>fx. commit_ok fx \<longrightarrow> refresh_ok fx \<and> print_ok fx) (update_effects rqs) \<longrightarrow>
      length (hush_db (snd (serve rqs (process_start [])))) =
        3 + accepted (fst (serve rqs (process_start []))))"
proof -
  have p: "prefix (hush_db w) (hush_db (snd (serve rqs w)))" by (rule serve_prefix)
  then have l: "length (hush_db w) \<le> length (hush_db (snd (serve rqs w)))"
    by (rule prefix_length_le)
  have c: "(case fst (submit_model_update p fx w) of
      Inl e \<Rightarrow> True
    | Inr r \<Rightarrow> hush_db (snd (submit_model_update p fx w)) = hush_db w @ [new_data_point r])"
    by (simp add: submit_model_update_accepted_row(1) split: sum.splits)
  have t: "length (hush_db (process_start [])) = 3"
    by (simp add: process_start_table add_all_db_data_empty)
  from serve_counts [OF first_start, of rqs] t
  have n: "length (hush_db (snd (serve rqs (process_start [])))) = 3 + committed rqs"
    and a: "accepted (fst (serve rqs (process_start []))) =
           length (filter (\<lambda>fx. commit_ok fx \<and> refresh_ok fx \<and> print_ok fx) (update_effects rqs))"
    by simp_all
  have k: "length (hush_db (snd (serve rqs (process_start [])))) =
        3 + accepted (fst (serve rqs (process_start [])))"
    if "list_all (\<lambda>fx. commit_ok fx \<longrightarrow> refresh_ok fx \<and> print_ok fx) (update_effects rqs)"
  proof -
    from that
    have "filter (\<lambda>fx. commit_ok fx \<and> refresh_ok fx \<and> print_ok fx) (update_effects rqs) =
               filter commit_ok (update_effects rqs)"
      by (intro filter_cong) (auto simp: list_all_iff)
    with n a show ?thesis by (simp add: committed_def)
  qed
  from p l c n k show ?thesis by blast
qed

theorem store_append_only_witness:
  "list_all (\<lambda>fx. commit_ok fx \<longrightarrow> refresh_ok fx \<and> print_ok fx)
     (update_effects
       [SubmitUpdate \<lparr>feature_attributions = [''text'' \<mapsto> 0.7], user_id = ''anon-1''\<rparr>
          \<lparr>laplace_text = 0, laplace_typing = 0, laplace_voice = 0,
           now = \<lparr>year = 2025, month = 11, day = 3, hour = 8, minute = 0, second = 0, microsecond = 0\<rparr>,
           commit_ok = True, refresh_ok = True, print_ok = True\<rparr>,
        GetDashboardData,
        SubmitUpdate \<lparr>feature_attributions = [''text'' \<mapsto> 0.2], user_id = ''anon-2''\<rparr>
          \<lparr>laplace_text = 0, laplace_typing = 0, laplace_voice = 0,
           now = \<lparr>year = 2025, month = 11, day = 3, hour = 8, minute = 0, second = 1, microsecond = 0\<rparr>,
           commit_ok = False, refresh_ok = True, print_ok = True\<rparr>]) \<and>
   accepted (fst (serve
       [SubmitUpdate \<lparr>feature_attributions = [''text'' \<mapsto> 0.7], user_id = ''anon-1''\<rparr>
          \<lparr>laplace_text = 0, laplace_typing = 0, laplace_voice = 0,
           now = \<lparr>year = 2025, month = 11, day = 3, hour = 8, minute = 0, second = 0, microsecond = 0\<rparr>,
           commit_ok = True, refresh_ok = True, print_ok = True\<rparr>,
        GetDashboardData,
        SubmitUpdate \<lparr>feature_attributions = [''text'' \<mapsto> 0.2], user_id = ''anon-2''\<rparr>
          \<lparr>laplace_text = 0, laplace_typing = 0, laplace_voice = 0,
           now = \<lparr>year = 2025, month = 11, day = 3, hour = 8, minute = 0, second = 1, microsecond = 0\<rparr>,
           commit_ok = False, refresh_ok = True, print_ok = True\<rparr>]
       (process_start []))) = 1 \<and>
   length (hush_db (snd (serve
       [SubmitUpdate \<lparr>feature_attributions = [''text'' \<mapsto> 0.7], user_id = ''anon-1''\<rparr>
          \<lparr>laplace_text = 0, laplace_typing = 0, laplace_voice = 0,
           now = \<lparr>year = 2025, month = 11, day = 3, hour = 8, minute = 0, second = 0, microsecond = 0\<rparr>,
           commit_ok = True, refresh_ok = True, print_ok = True\<rparr>,
        GetDashboardData,
        SubmitUpdate \<lparr>feature_attributions = [''text'' \<mapsto> 0.2], user_id = ''anon-2''\<rparr>
          \<lparr>laplace_text = 0, laplace_typing = 0, laplace_voice = 0,
           now = \<lparr>year = 2025, month = 11, day = 3, hour = 8, minute = 0, second = 1, microsecond = 0\<rparr>,
           commit_ok = False, refresh_ok = True, print_ok = True\<rparr>]
       (process_start [])))) = 4"
proof -
  let ?rqs = "[SubmitUpdate \<lparr>feature_attributions = [''text'' \<mapsto> (0.7::real)], user_id = ''anon-1''\<rparr>
          \<lparr>laplace_text = 0, laplace_typing = 0, laplace_voice = 0,
           now = \<lparr>year = 2025, month = 11, day = 3, hour = 8, minute = 0, second = 0, microsecond = 0\<rparr>,
           commit_ok = True, refresh_ok = True, print_ok = True\<rparr>,
        GetDashboardData,
        SubmitUpdate \<lparr>feature_attributions = [''text'' \<mapsto> (0.2::real)], user_id = ''anon-2''\<rparr>
          \<lparr>laplace_text = 0, laplace_typing = 0, laplace_voice = 0,
           now = \<lparr>year = 2025, month = 11, day = 3, hour = 8, minute = 0, second = 1, microsecond = 0\<rparr>,
           commit_ok = False, refresh_ok = True, print_ok = True\<rparr>]"
  have h: "list_all (\<lambda>fx. commit_ok fx \<longrightarrow> refresh_ok fx \<and> print_ok fx) (update_effects ?rqs)"
    by simp
  have a: "accepted (fst (serve ?rqs (process_start []))) = 1"
    using serve_counts [OF first_start, of ?rqs] by simp
  from store_append_only [of "process_start []" ?rqs
      "\<lparr>feature_attributions = [''text'' \<mapsto> 0.7], user_id = ''anon-1''\<rparr>"
      "\<lparr>laplace_text = 0, laplace_typing = 0, laplace_voice = 0,
        now = \<lparr>year = 2025, month = 11, day = 3, hour = 8, minute = 0, second = 0, microsecond = 0\<rparr>,
        commit_ok = True, refresh_ok = True, print_ok = True\<rparr>"] h
  have "length (hush_db (snd (serve ?rqs (process_start [])))) =
        3 + accepted (fst (serve ?rqs (process_start [])))"
    by blast
  with h a show ?thesis by simp
qed

subsection \<open>Timestamps as strings\<close>

text \<open>
  Strings are compared as the store compares them: lexicographically, character by
  character, by character code. Blocks of equal length compare block by block, and a
  zero-padded decimal block compares as the number it shows.
\<close>

lemma less_append_same_length:
  fixes a b :: "'a::linorder list"
  assumes "length a = length b"
  shows "a @ xs < b @ ys \<longleftrightarrow> a < b \<or> (a = b \<and> xs < ys)"
  using assms by (induction a b rule: list_induct2) auto

lemma less_same_length_append:
  fixes a b :: "'a::linorder list"
  assumes "length a = length b"
  shows "a @ [x] < b @ [y] \<longleftrightarrow> a < b \<or> (a = b \<and> x < y)"
  using less_append_same_length [OF assms, of "[x]" "[y]"] by simp

lemma digit_char_less:
  assumes "a < 10" and "b < 10"
  shows "digit_char a < digit_char b \<longleftrightarrow> a < b"
  using assms by (simp add: digit_char_def less_char_def)

lemma digit_char_eq:
  assumes "a < 10" and "b < 10"
  shows "digit_char a = digit_char b \<longleftrightarrow> a = b"
proof
  assume "digit_char a = digit_char b"
  then have "of_char (digit_char a) = (of_char (digit_char b) :: nat)" by simp
  with assms show "a = b" by (simp add: digit_char_def)
qed simp

lemma length_zero_padded: "length (zero_padded k n) = k"
  by (induction k arbitrary: n) simp_all

lemma last_digit_cases:
  fixes a b r s :: nat
  assumes "r < 10" and "s < 10"
  shows "10 * a + r < 10 * b + s \<longleftrightarrow> a < b \<or> (a = b \<and> r < s)"
  using assms by linarith

lemma split_last_digit:
  "(n::nat) < m \<longleftrightarrow> n div 10 < m div 10 \<or> (n div 10 = m div 10 \<and> n mod 10 < m mod 10)"
proof -
  have "n < m \<longleftrightarrow> 10 * (n div 10) + n mod 10 < 10 * (m div 10) + m mod 10"
    by (simp only: mult_div_mod_eq)
  also have "\<dots> \<longleftrightarrow> n div 10 < m div 10 \<or> (n div 10 = m div 10 \<and> n mod 10 < m mod 10)"
    by (rule last_digit_cases) simp_all
  finally show ?thesis .
qed

lemma split_last_digit_eq:
  "(n::nat) = m \<longleftrightarrow> n div 10 = m div 10 \<and> n mod 10 = m mod 10"
proof
  assume "n div 10 = m div 10 \<and> n mod 10 = m mod 10"
  then have "10 * (n div 10) + n mod 10 = 10 * (m div 10) + m mod 10" by simp
  then show "n = m" by (simp only: mult_div_mod_eq)
qed simp

lemma zero_padded_eq:
  assumes "n < 10 ^ k" and "m < 10 ^ k"
  shows "zero_padded k n = zero_padded k m \<longleftrightarrow> n = m"
  using assms
proof (induction k arbitrary: n m)
  case 0
  then show ?case by simp
next
  case (Suc k)
  from Suc.prems have b: "n div 10 < 10 ^ k" "m div 10 < 10 ^ k"
    by (simp_all add: less_mult_imp_div_less mult.commute)
  have "zero_padded (Suc k) n = zero_padded (Suc k) m \<longleftrightarrow>
        zero_padded k (n div 10) = zero_padded k (m div 10) \<and> digit_char (n mod 10) = digit_char (m mod 10)"
    by (simp add: length_zero_padded)
  also have "\<dots> \<longleftrightarrow> n div 10 = m div 10 \<and> n mod 10 = m mod 10"
    by (simp add: Suc.IH [OF b] digit_char_eq)
  also have "\<dots> \<longleftrightarrow> n = m" by (rule split_last_digit_eq [symmetric])
  finally show ?case .
qed

lemma zero_padded_less:
  assumes "n < 10 ^ k" and "m < 10 ^ k"
  shows "zero_padded k n < zero_padded k m \<longleftrightarrow> n < m"
  using assms
proof (induction k arbitrary: n m)
  case 0
  then show ?case by simp
next
  case (Suc k)
  from Suc.prems have b: "n div 10 < 10 ^ k" "m div 10 < 10 ^ k"
    by (simp_all add: less_mult_imp_div_less mult.commute)
  have "zero_padded (Suc k) n < zero_padded (Suc k) m \<longleftrightarrow>
        zero_padded k (n div 10) < zero_padded k (m div 10) \<or>
        (zero_padded k (n div 10) = zero_padded k (m div 10) \<and> digit_char (n mod 10) < digit_char (m mod 10))"
    by (simp add: less_same_length_append length_zero_padded)
  also have "\<dots> \<longleftrightarrow> n div 10 < m div 10 \<or> (n div 10 = m div 10 \<and> n mod 10 < m mod 10)"
    by (simp add: Suc.IH [OF b] zero_padded_eq [OF b] digit_char_less)
  also have "\<dots> \<longleftrightarrow> n < m" by (rule split_last_digit [symmetric])
  finally show ?case .
qed

lemma zero_padded_block_less:
  assumes "n < 10 ^ k" and "m < 10 ^ k"
  shows "zero_padded k n @ xs < zero_padded k m @ ys \<longleftrightarrow> n < m \<or> (n = m \<and> xs < ys)"
proof -
  have "length (zero_padded k n) = length (zero_padded k m)"
    by (simp add: length_zero_padded)
  from less_append_same_length [OF this]
  show ?thesis by (simp add: zero_padded_less [OF assms] zero_padded_eq [OF assms])
qed

lemma microsecond_suffix_less:
  assumes "a < 10 ^ 6" and "b < 10 ^ 6"
  shows "(if a = 0 then [] else CHR ''.'' # zero_padded 6 a) < (if b = 0 then [] else CHR ''.'' # zero_padded 6 b)
         \<longleftrightarrow> a < b"
  using zero_padded_less [OF assms] by simp

lemma valid_datetime_bounds:
  assumes "valid_datetime d"
  shows "year d < 10 ^ 4" "month d < 10 ^ 2" "day d < 10 ^ 2" "hour d < 10 ^ 2"
    "minute d < 10 ^ 2" "second d < 10 ^ 2" "microsecond d < 10 ^ 6"
  using assms by (simp_all add: valid_datetime_def)

lemma isoformat_less:
  assumes "valid_datetime d1" and "valid_datetime d2"
  shows "isoformat d1 < isoformat d2 \<longleftrightarrow> datetime_key d1 < datetime_key d2"
proof -
  note b1 = valid_datetime_bounds [OF assms(1)]
  note b2 = valid_datetime_bounds [OF assms(2)]
  have "isoformat d1 < isoformat d2 \<longleftrightarrow>
      year d1 < year d2 \<or> (year d1 = year d2 \<and>
      (month d1 < month d2 \<or> (month d1 = month d2 \<and>
      (day d1 < day d2 \<or> (day d1 = day d2 \<and>
      (hour d1 < hour d2 \<or> (hour d1 = hour d2 \<and>
      (minute d1 < minute d2 \<or> (minute d1 = minute d2 \<and>
      (second d1 < second d2 \<or> (second d1 = second d2 \<and>
       microsecond d1 < microsecond d2)))))))))))"
    unfolding isoformat_def
    by (simp only: zero_padded_block_less [OF b1(1) b2(1)] zero_padded_block_less [OF b1(2) b2(2)]
        zero_padded_block_less [OF b1(3) b2(3)] zero_padded_block_less [OF b1(4) b2(4)]
        zero_padded_block_less [OF b1(5) b2(5)] zero_padded_block_less [OF b1(6) b2(6)]
        microsecond_suffix_less [OF b1(7) b2(7)] append_Cons append_Nil Cons_less_Cons
        less_irrefl simp_thms)
  also have "\<dots> \<longleftrightarrow> datetime_key d1 < datetime_key d2"
    by (simp add: datetime_key_def)
  finally show ?thesis .
qed

lemma zero_padded_2: "zero_padded 2 n = [digit_char (n div 10 mod 10), digit_char (n mod 10)]"
proof -
  have e: "(2::nat) = Suc (Suc 0)" by simp
  show ?thesis unfolding e by simp
qed

lemma zero_padded_4:
  "zero_padded 4 n = [digit_char (n div 10 div 10 div 10 mod 10), digit_char (n div 10 div 10 mod 10),
     digit_char (n div 10 mod 10), digit_char (n mod 10)]"
proof -
  have e: "(4::nat) = Suc (Suc (Suc (Suc 0)))" by simp
  show ?thesis unfolding e by simp
qed

lemma zero_padded_6:
  "zero_padded 6 n = [digit_char (n div 10 div 10 div 10 div 10 div 10 mod 10),
     digit_char (n div 10 div 10 div 10 div 10 mod 10),
     digit_char (n div 10 div 10 div 10 mod 10), digit_char (n div 10 div 10 mod 10),
     digit_char (n div 10 mod 10), digit_char (n mod 10)]"
proof -
  have e: "(6::nat) = Suc (Suc (Suc (Suc (Suc (Suc 0)))))" by simp
  show ?thesis unfolding e by simp
qed

lemma digit_char_numerals:
  "digit_char 0 = CHR ''0''" "digit_char 1 = CHR ''1''" "digit_char 2 = CHR ''2''"
  "digit_char 3 = CHR ''3''" "digit_char 4 = CHR ''4''" "digit_char 5 = CHR ''5''"
  "digit_char 6 = CHR ''6''" "digit_char 7 = CHR ''7''" "digit_char 8 = CHR ''8''"
  "digit_char 9 = CHR ''9''" "digit_char (Suc 0) = CHR ''1''"
  by (simp_all add: digit_char_def char_of_def bit_0 bit_numeral_simps)

lemmas isoformat_eval =
  isoformat_def zero_padded_2 zero_padded_4 zero_padded_6 digit_char_numerals

lemma isoformat_le:
  assumes "valid_datetime d1" and "valid_datetime d2" and "datetime_key d1 \<le> datetime_key d2"
  shows "isoformat d1 \<le> isoformat d2"
proof -
  from assms(3) have "\<not> datetime_key d2 < datetime_key d1" by simp
  then have "\<not> isoformat d2 < isoformat d1"
    by (simp add: isoformat_less [OF assms(2) assms(1)])
  then show ?thesis by simp
qed

lemma last_seed_le_isoformat:
  assumes "valid_datetime d" and "[2025, 11, 1, 12, 0, 1, 0] \<le> datetime_key d"
  shows "''2025-11-01T12:00:00Z'' \<le> isoformat d"
proof -
  let ?d0 = "\<lparr>year = 2025, month = 11, day = 1, hour = 12, minute = 0, second = 1, microsecond = 0\<rparr>"
  have v: "valid_datetime ?d0" by (simp add: valid_datetime_def)
  have k: "datetime_key ?d0 \<le> datetime_key d" using assms(2) by (simp add: datetime_key_def)
  have "''2025-11-01T12:00:00Z'' \<le> isoformat ?d0" by (simp add: isoformat_eval)
  also have "\<dots> \<le> isoformat d" by (rule isoformat_le [OF v assms(1) k])
  finally show ?thesis .
qed

lemma seed_timestamps:
  "map timestamp (add_all db_data []) =
     [''2025-11-01T10:00:00Z'', ''2025-11-01T11:00:00Z'', ''2025-11-01T12:00:00Z'']"
  by (simp add: add_all_db_data_empty)

lemma submit_model_update_timestamp:
  assumes "fst (submit_model_update p fx w) = Inr r"
  shows "timestamp (new_data_point r) = isoformat (now fx)"
  by (rule submit_model_update_accepted_row(2) [OF assms])

subsection \<open>A failing store write\<close>

text \<open>What step 3 meets at the store and the output stream never reaches the globals.\<close>

lemma submit_model_update_globals_outcomes:
  "global_model_weights (snd (submit_model_update p fx w)) =
     global_model_weights (snd (submit_model_update p
        (fx\<lparr>commit_ok := b1, refresh_ok := b2, print_ok := b3\<rparr>) w))"
  "global_update_count (snd (submit_model_update p fx w)) =
     global_update_count (snd (submit_model_update p
        (fx\<lparr>commit_ok := b1, refresh_ok := b2, print_ok := b3\<rparr>) w))"
  by (simp_all add: submit_model_update_def Let_def save_new_data_point_globals split: sum.splits)

text \<open>
  Claim C2, as stated, fails, in both directions. The handler folds the update into the
  globals (lines 116 to 122) before it writes the row (lines 132 to 134) and has no
  handler that undoes the assignments. Below, the first request after a fresh start on an
  empty store contributes 1 for \<^verbatim>\<open>text\<close> and its commit fails: the request raises and the
  table is unchanged, but the update count went from 0 to 1 and the \<^verbatim>\<open>text\<close> weight from
  0.33 to 1. The next request sees it: contributing 0, it returns the average 1/2, where
  the same request on the state before the failed one returns 0. And a request can fail
  with its write visible: when the commit goes through and \<^verbatim>\<open>refresh\<close> then raises, the
  request fails and the table holds the new row.
\<close>

theorem failed_write_changes_memory:
  "fst (submit_model_update
     \<lparr>feature_attributions = [''text'' \<mapsto> 1, ''typing'' \<mapsto> 0, ''voice'' \<mapsto> 0], user_id = ''anon-12345''\<rparr>
     \<lparr>laplace_text = 0, laplace_typing = 0, laplace_voice = 0,
      now = \<lparr>year = 2025, month = 11, day = 3, hour = 8, minute = 0, second = 0, microsecond = 0\<rparr>,
      commit_ok = False, refresh_ok = True, print_ok = True\<rparr> (process_start [])) = Inl StoreFault \<and>
   hush_db (snd (submit_model_update
     \<lparr>feature_attributions = [''text'' \<mapsto> 1, ''typing'' \<mapsto> 0, ''voice'' \<mapsto> 0], user_id = ''anon-12345''\<rparr>
     \<lparr>laplace_text = 0, laplace_typing = 0, laplace_voice = 0,
      now = \<lparr>year = 2025, month = 11, day = 3, hour = 8, minute = 0, second = 0, microsecond = 0\<rparr>,
      commit_ok = False, refresh_ok = True, print_ok = True\<rparr> (process_start []))) = hush_db (process_start []) \<and>
   global_update_count (process_start []) = 0 \<and>
   global_update_count (snd (submit_model_update
     \<lparr>feature_attributions = [''text'' \<mapsto> 1, ''typing'' \<mapsto> 0, ''voice'' \<mapsto> 0], user_id = ''anon-12345''\<rparr>
     \<lparr>laplace_text = 0, laplace_typing = 0, laplace_voice = 0,
      now = \<lparr>year = 2025, month = 11, day = 3, hour = 8, minute = 0, second = 0, microsecond = 0\<rparr>,
      commit_ok = False, refresh_ok = True, print_ok = True\<rparr> (process_start []))) = 1 \<and>
   global_model_weights (process_start []) ''text'' = Some 0.33 \<and>
   global_model_weights (snd (submit_model_update
     \<lparr>feature_attributions = [''text'' \<mapsto> 1, ''typing'' \<mapsto> 0, ''voice'' \<mapsto> 0], user_id = ''anon-12345''\<rparr>
     \<lparr>laplace_text = 0, laplace_typing = 0, laplace_voice = 0,
      now = \<lparr>year = 2025, month = 11, day = 3, hour = 8, minute = 0, second = 0, microsecond = 0\<rparr>,
      commit_ok = False, refresh_ok = True, print_ok = True\<rparr> (process_start []))) ''text'' = Some 1 \<and>
   fst (submit_model_update
     \<lparr>feature_attributions = [''text'' \<mapsto> 0, ''typing'' \<mapsto> 0, ''voice'' \<mapsto> 0], user_id = ''anon-12345''\<rparr>
     \<lparr>laplace_text = 0, laplace_typing = 0, laplace_voice = 0,
      now = \<lparr>year = 2025, month = 11, day = 3, hour = 8, minute = 0, second = 1, microsecond = 0\<rparr>,
      commit_ok = True, refresh_ok = True, print_ok = True\<rparr> (process_start [])) =
     Inr \<lparr>status = ''update received and saved'',
          new_data_point = \<lparr>id_col = Some 4, timestamp = ''2025-11-03T08:00:01'',
            avg_text_importance = 0, avg_typing_importance = 0, avg_voice_importance = 0\<rparr>\<rparr> \<and>
   fst (submit_model_update
     \<lparr>feature_attributions = [''text'' \<mapsto> 0, ''typing'' \<mapsto> 0, ''voice'' \<mapsto> 0], user_id = ''anon-12345''\<rparr>
     \<lparr>laplace_text = 0, laplace_typing = 0, laplace_voice = 0,
      now = \<lparr>year = 2025, month = 11, day = 3, hour = 8, minute = 0, second = 1, microsecond = 0\<rparr>,
      commit_ok = True, refresh_ok = True, print_ok = True\<rparr>
     (snd (submit_model_update
       \<lparr>feature_attributions = [''text'' \<mapsto> 1, ''typing'' \<mapsto> 0, ''voice'' \<mapsto> 0], user_id = ''anon-12345''\<rparr>
       \<lparr>laplace_text = 0, laplace_typing = 0, laplace_voice = 0,
        now = \<lparr>year = 2025, month = 11, day = 3, hour = 8, minute = 0, second = 0, microsecond = 0\<rparr>,
        commit_ok = False, refresh_ok = True, print_ok = True\<rparr> (process_start [])))) =
     Inr \<lparr>status = ''update received and saved'',
          new_data_point = \<lparr>id_col = Some 4, timestamp = ''2025-11-03T08:00:01'',
            avg_text_importance = 1 / 2, avg_typing_importance = 0, avg_voice_importance = 0\<rparr>\<rparr> \<and>
   fst (submit_model_update
     \<lparr>feature_attributions = [''text'' \<mapsto> 0, ''typing'' \<mapsto> 0, ''voice'' \<mapsto> 0], user_id = ''anon-12345''\<rparr>
     \<lparr>laplace_text = 0, laplace_typing = 0, laplace_voice = 0,
      now = \<lparr>year = 2025, month = 11, day = 3, hour = 8, minute = 0, second = 1, microsecond = 0\<rparr>,
      commit_ok = True, refresh_ok = False, print_ok = True\<rparr> (process_start [])) = Inl StoreFault \<and>
   map timestamp (hush_db (snd (submit_model_update
     \<lparr>feature_attributions = [''text'' \<mapsto> 0, ''typing'' \<mapsto> 0, ''voice'' \<mapsto> 0], user_id = ''anon-12345''\<rparr>
     \<lparr>laplace_text = 0, laplace_typing = 0, laplace_voice = 0,
      now = \<lparr>year = 2025, month = 11, day = 3, hour = 8, minute = 0, second = 1, microsecond = 0\<rparr>,
      commit_ok = True, refresh_ok = False, print_ok = True\<rparr> (process_start [])))) =
     [''2025-11-01T10:00:00Z'', ''2025-11-01T11:00:00Z'', ''2025-11-01T12:00:00Z'',
      ''2025-11-03T08:00:01'']"
proof -
  let ?p = "\<lparr>feature_attributions = [''text'' \<mapsto> (1::real), ''typing'' \<mapsto> 0, ''voice'' \<mapsto> 0], user_id = ''anon-12345''\<rparr>"
  let ?q = "\<lparr>feature_attributions = [''text'' \<mapsto> (0::real), ''typing'' \<mapsto> 0, ''voice'' \<mapsto> 0], user_id = ''anon-12345''\<rparr>"
  let ?fx0 = "\<lparr>laplace_text = 0, laplace_typing = 0, laplace_voice = 0,
      now = \<lparr>year = 2025, month = 11, day = 3, hour = 8, minute = 0, second = 0, microsecond = 0\<rparr>,
      commit_ok = False, refresh_ok = True, print_ok = True\<rparr>"
  let ?fx1 = "\<lparr>laplace_text = 0, laplace_typing = 0, laplace_voice = 0,
      now = \<lparr>year = 2025, month = 11, day = 3, hour = 8, minute = 0, second = 1, microsecond = 0\<rparr>,
      commit_ok = True, refresh_ok = True, print_ok = True\<rparr>"
  let ?fx2 = "\<lparr>laplace_text = 0, laplace_typing = 0, laplace_voice = 0,
      now = \<lparr>year = 2025, month = 11, day = 3, hour = 8, minute = 0, second = 1, microsecond = 0\<rparr>,
      commit_ok = True, refresh_ok = False, print_ok = True\<rparr>"
  let ?w0 = "process_start []"
  let ?w1 = "snd (submit_model_update ?p ?fx0 ?w0)"
  have c0: "global_update_count ?w0 \<noteq> - 1"
    by (simp add: process_start_globals(4))
  note k0 = process_start_globals(1-3) [of "[]"]
  have t0: "hush_db ?w0 = add_all db_data []" by (simp add: process_start_table)
  have m: "max_id (add_all db_data []) = 3" by (simp add: add_all_db_data_empty)
  have f: "fst (submit_model_update ?p ?fx0 ?w0) = Inl StoreFault"
    by (simp add: submit_model_update_present [OF k0 c0] save_new_data_point_def)
  have t1: "hush_db ?w1 = hush_db ?w0"
    by (rule submit_model_update_failed_commit(1)) simp
  have k1: "global_model_weights ?w1 ''text'' = Some 1"
    "global_model_weights ?w1 ''typing'' = Some 0"
    "global_model_weights ?w1 ''voice'' = Some 0"
    by (simp_all add: submit_model_update_globals(1-3) [OF k0 c0] process_start_globals(4) dict_get_def)
  have c1v: "global_update_count ?w1 = 1"
    by (simp add: submit_model_update_globals(4) [OF k0 c0] process_start_globals(4))
  then have c1: "global_update_count ?w1 \<noteq> - 1" by simp
  have a: "fst (submit_model_update ?q ?fx1 ?w0) =
     Inr \<lparr>status = ''update received and saved'',
          new_data_point = \<lparr>id_col = Some 4, timestamp = ''2025-11-03T08:00:01'',
            avg_text_importance = 0, avg_typing_importance = 0, avg_voice_importance = 0\<rparr>\<rparr>"
    by (simp add: submit_model_update_present [OF k0 c0] save_new_data_point_def Let_def
        insert_row_def process_start_globals t0 m dict_get_def isoformat_eval)
  have b: "fst (submit_model_update ?q ?fx1 ?w1) =
     Inr \<lparr>status = ''update received and saved'',
          new_data_point = \<lparr>id_col = Some 4, timestamp = ''2025-11-03T08:00:01'',
            avg_text_importance = 1 / 2, avg_typing_importance = 0, avg_voice_importance = 0\<rparr>\<rparr>"
    using k1 c1v t1
    by (simp add: submit_model_update_present [OF k1 c1] save_new_data_point_def Let_def
        insert_row_def t0 m dict_get_def isoformat_eval)
  have g: "fst (submit_model_update ?q ?fx2 ?w0) = Inl StoreFault"
    by (simp add: submit_model_update_present [OF k0 c0] save_new_data_point_def Let_def)
  have "commit_ok ?fx2" by simp
  from submit_model_update_reachable(4) [OF first_start this, of ?q]
  have h: "map timestamp (hush_db (snd (submit_model_update ?q ?fx2 ?w0))) =
     [''2025-11-01T10:00:00Z'', ''2025-11-01T11:00:00Z'', ''2025-11-01T12:00:00Z'',
      ''2025-11-03T08:00:01'']"
    by (simp add: t0 seed_timestamps isoformat_eval)
  from f t1 k1(1) c1v a b g h show ?thesis
    by (simp add: process_start_globals)
qed

text \<open>
  Claim C2, amended. The commit decides the store. When it fails, the request fails and
  the table is unchanged. When it goes through (which in a reachable state it always gets
  the chance to), exactly one row, stamped with the clock reading, is appended and stays,
  also when the request then fails at \<^verbatim>\<open>refresh\<close> or \<^verbatim>\<open>print\<close>. The request returns a
  response exactly when commit, refresh and print all go through, and the appended row is
  then the returned one. The aggregation state is not rolled back in any case: whatever
  the three outcomes, the handler leaves the weights and the update count a successful
  request would leave, in a reachable state the count plus one.
\<close>

theorem store_write_atomic_memory_kept:
  "(\<not> commit_ok fx \<longrightarrow>
      hush_db (snd (submit_model_update p fx w)) = hush_db w \<and>
      \<not> is_accepted (SubmitReply (fst (submit_model_update p fx w)))) \<and>
   (case fst (submit_model_update p fx w) of
      Inl e \<Rightarrow> True
    | Inr r \<Rightarrow> hush_db (snd (submit_model_update p fx w)) = hush_db w @ [new_data_point r]) \<and>
   global_model_weights (snd (submit_model_update p fx w)) =
     global_model_weights (snd (submit_model_update p
        (fx\<lparr>commit_ok := True, refresh_ok := True, print_ok := True\<rparr>) w)) \<and>
   global_update_count (snd (submit_model_update p fx w)) =
     global_update_count (snd (submit_model_update p
        (fx\<lparr>commit_ok := True, refresh_ok := True, print_ok := True\<rparr>) w)) \<and>
   (reachable w \<longrightarrow>
      (\<not> commit_ok fx \<longrightarrow> fst (submit_model_update p fx w) = Inl StoreFault) \<and>
      (commit_ok fx \<longrightarrow>
         (\<exists>row. hush_db (snd (submit_model_update p fx w)) = hush_db w @ [row] \<and>
                timestamp row = isoformat (now fx))) \<and>
      (is_accepted (SubmitReply (fst (submit_model_update p fx w))) \<longleftrightarrow>
         commit_ok fx \<and> refresh_ok fx \<and> print_ok fx) \<and>
      global_update_count (snd (submit_model_update p fx w)) = global_update_count w + 1)"
proof -
  have a: "hush_db (snd (submit_model_update p fx w)) = hush_db w \<and>
      \<not> is_accepted (SubmitReply (fst (submit_model_update p fx w)))" if n: "\<not> commit_ok fx"
  proof
    show "hush_db (snd (submit_model_update p fx w)) = hush_db w"
      by (rule submit_model_update_failed_commit(1) [OF n])
    show "\<not> is_accepted (SubmitReply (fst (submit_model_update p fx w)))"
      using submit_model_update_failed_commit(2) [OF n, of p w]
      by (cases "fst (submit_model_update p fx w)") auto
  qed
  have b: "(case fst (submit_model_update p fx w) of
      Inl e \<Rightarrow> True
    | Inr r \<Rightarrow> hush_db (snd (submit_model_update p fx w)) = hush_db w @ [new_data_point r])"
    by (simp add: submit_model_update_accepted_row(1) split: sum.splits)
  note c = submit_model_update_globals_outcomes(1) [of p fx w True True True]
  note d = submit_model_update_globals_outcomes(2) [of p fx w True True True]
  have e: "(\<not> commit_ok fx \<longrightarrow> fst (submit_model_update p fx w) = Inl StoreFault) \<and>
      (commit_ok fx \<longrightarrow>
         (\<exists>row. hush_db (snd (submit_model_update p fx w)) = hush_db w @ [row] \<and>
                timestamp row = isoformat (now fx))) \<and>
      (is_accepted (SubmitReply (fst (submit_model_update p fx w))) \<longleftrightarrow>
         commit_ok fx \<and> refresh_ok fx \<and> print_ok fx) \<and>
      global_update_count (snd (submit_model_update p fx w)) = global_update_count w + 1"
    if r: "reachable w"
  proof (intro conjI impI)
    show "is_accepted (SubmitReply (fst (submit_model_update p fx w))) \<longleftrightarrow>
         commit_ok fx \<and> refresh_ok fx \<and> print_ok fx"
      by (rule submit_model_update_reachable(1) [OF r])
    show "global_update_count (snd (submit_model_update p fx w)) = global_update_count w + 1"
      by (rule submit_model_update_reachable(5) [OF r])
  next
    assume "\<not> commit_ok fx"
    then show "fst (submit_model_update p fx w) = Inl StoreFault"
      by (rule submit_model_update_reachable(2) [OF r])
  next
    assume c: "commit_ok fx"
    let ?row = "last (hush_db (snd (submit_model_update p fx w)))"
    from submit_model_update_reachable(3) [OF r, of p fx] c
    have t: "hush_db (snd (submit_model_update p fx w)) = hush_db w @ [?row]" by simp
    from submit_model_update_reachable(4) [OF r c, of p]
    have "map timestamp (hush_db w @ [?row]) = map timestamp (hush_db w) @ [isoformat (now fx)]"
      by (simp only: t [symmetric])
    then have "timestamp ?row = isoformat (now fx)" by simp
    with t show "\<exists>row. hush_db (snd (submit_model_update p fx w)) = hush_db w @ [row] \<and>
                timestamp row = isoformat (now fx)"
      by blast
  qed
  from a b c d e show ?thesis by blast
qed

theorem store_write_atomic_memory_kept_witness:
  "reachable (process_start []) \<and>
   \<not> is_accepted (SubmitReply (fst (submit_model_update
     \<lparr>feature_attributions = [''text'' \<mapsto> 1, ''typing'' \<mapsto> 0, ''voice'' \<mapsto> 0], user_id = ''anon-12345''\<rparr>
     \<lparr>laplace_text = 0, laplace_typing = 0, laplace_voice = 0,
      now = \<lparr>year = 2025, month = 11, day = 3, hour = 8, minute = 0, second = 0, microsecond = 0\<rparr>,
      commit_ok = True, refresh_ok = False, print_ok = True\<rparr> (process_start [])))) \<and>
   length (hush_db (snd (submit_model_update
     \<lparr>feature_attributions = [''text'' \<mapsto> 1, ''typing'' \<mapsto> 0, ''voice'' \<mapsto> 0], user_id = ''anon-12345''\<rparr>
     \<lparr>laplace_text = 0, laplace_typing = 0, laplace_voice = 0,
      now = \<lparr>year = 2025, month = 11, day = 3, hour = 8, minute = 0, second = 0, microsecond = 0\<rparr>,
      commit_ok = True, refresh_ok = False, print_ok = True\<rparr> (process_start [])))) = 4 \<and>
   global_update_count (snd (submit_model_update
     \<lparr>feature_attributions = [''text'' \<mapsto> 1, ''typing'' \<mapsto> 0, ''voice'' \<mapsto> 0], user_id = ''anon-12345''\<rparr>
     \<lparr>laplace_text = 0, laplace_typing = 0, laplace_voice = 0,
      now = \<lparr>year = 2025, month = 11, day = 3, hour = 8, minute = 0, second = 0, microsecond = 0\<rparr>,
      commit_ok = True, refresh_ok = False, print_ok = True\<rparr> (process_start []))) = 1"
proof -
  let ?p = "\<lparr>feature_attributions = [''text'' \<mapsto> (1::real), ''typing'' \<mapsto> 0, ''voice'' \<mapsto> 0], user_id = ''anon-12345''\<rparr>"
  let ?fx = "\<lparr>laplace_text = 0, laplace_typing = 0, laplace_voice = 0,
      now = \<lparr>year = 2025, month = 11, day = 3, hour = 8, minute = 0, second = 0, microsecond = 0\<rparr>,
      commit_ok = True, refresh_ok = False, print_ok = True\<rparr>"
  let ?res = "submit_model_update ?p ?fx (process_start [])"
  have r: "reachable (process_start [])" by (rule first_start)
  have c: "commit_ok ?fx" and n: "\<not> (commit_ok ?fx \<and> refresh_ok ?fx \<and> print_ok ?fx)" by simp_all
  from store_write_atomic_memory_kept [of ?fx ?p "process_start []"] r
  have e: "(commit_ok ?fx \<longrightarrow>
         (\<exists>row. hush_db (snd ?res) = hush_db (process_start []) @ [row] \<and>
                timestamp row = isoformat (now ?fx)))"
    and f: "is_accepted (SubmitReply (fst ?res)) \<longleftrightarrow>
         commit_ok ?fx \<and> refresh_ok ?fx \<and> print_ok ?fx"
    and g: "global_update_count (snd ?res) = global_update_count (process_start []) + 1"
    by blast+
  from e c obtain row where "hush_db (snd ?res) = hush_db (process_start []) @ [row]" by blast
  then have l: "length (hush_db (snd ?res)) = 4"
    by (simp add: process_start_table add_all_db_data_empty)
  from f n have a: "\<not> is_accepted (SubmitReply (fst ?res))" by blast
  from g have k: "global_update_count (snd ?res) = 1" by (simp add: process_start_globals(4))
  from r a l k show ?thesis by blast
qed

subsection \<open>Timestamp order and insertion order\<close>

lemma serve_sorted:
  assumes "hush_db w \<noteq> []"
    and "sorted (map timestamp (hush_db w))"
    and "\<forall>r \<in> set (hush_db w). \<forall>d \<in> set (clock_readings rqs). timestamp r \<le> isoformat d"
    and "sorted (map isoformat (clock_readings rqs))"
  shows "sorted (map timestamp (hush_db (snd (serve rqs w))))"
  using assms
proof (induction rqs arbitrary: w)
  case Nil
  then show ?case by simp
next
  case (Cons rq rqs)
  show ?case
  proof (cases rq)
    case Restart
    have t: "hush_db (process_start (hush_db w)) = hush_db w"
      using Cons.prems(1) by (simp add: process_start_table)
    have "sorted (map timestamp (hush_db (snd (serve rqs (process_start (hush_db w))))))"
      using Cons.prems by (intro Cons.IH) (simp_all add: t Restart)
    then show ?thesis by (simp add: Restart split_beta)
  next
    case ReadRoot
    have "sorted (map timestamp (hush_db (snd (serve rqs w))))"
      using Cons.prems by (intro Cons.IH) (simp_all add: ReadRoot)
    then show ?thesis by (simp add: ReadRoot split_beta)
  next
    case GetDashboardData
    have "sorted (map timestamp (hush_db (snd (serve rqs w))))"
      using Cons.prems by (intro Cons.IH) (simp_all add: GetDashboardData)
    then show ?thesis by (simp add: GetDashboardData split_beta)
  next
    case (SubmitUpdate p fx)
    let ?w = "snd (submit_model_update p fx w)"
    from Cons.prems(3) have old: "\<forall>r \<in> set (hush_db w). timestamp r \<le> isoformat (now fx)"
      and old': "\<forall>r \<in> set (hush_db w). \<forall>d \<in> set (clock_readings rqs). timestamp r \<le> isoformat d"
      by (simp_all add: SubmitUpdate)
    from Cons.prems(4) have new: "\<forall>d \<in> set (clock_readings rqs). isoformat (now fx) \<le> isoformat d"
      and s: "sorted (map isoformat (clock_readings rqs))"
      by (simp_all add: SubmitUpdate)
    have tbl: "hush_db ?w = hush_db w \<or>
        (\<exists>r. hush_db ?w = hush_db w @ [r] \<and> timestamp r = isoformat (now fx))"
      using submit_model_update_table [of p fx w] by blast
    have "sorted (map timestamp (hush_db (snd (serve rqs ?w))))"
    proof (rule Cons.IH)
      show "hush_db ?w \<noteq> []" using tbl Cons.prems(1) by auto
      show "sorted (map timestamp (hush_db ?w))"
        using tbl Cons.prems(2) old by (auto simp: sorted_append)
      show "\<forall>r \<in> set (hush_db ?w). \<forall>d \<in> set (clock_readings rqs). timestamp r \<le> isoformat d"
        using tbl old' new by auto
      show "sorted (map isoformat (clock_readings rqs))" by (rule s)
    qed
    then show ?thesis by (simp add: SubmitUpdate split_beta)
  qed
qed

lemma submit_model_update_appends:
  assumes "reachable w" and "commit_ok fx"
  shows "map timestamp (hush_db (snd (submit_model_update p fx w))) =
           map timestamp (hush_db w) @ [isoformat (now fx)]"
  by (rule submit_model_update_reachable(4) [OF assms])

text \<open>
  Claim C3, as stated, fails. The seed rows carry literal timestamps ending in \<^verbatim>\<open>Z\<close>; an
  update row carries \<^verbatim>\<open>datetime.now().isoformat()\<close>, a naive local reading with no suffix,
  so the stored strings share neither format nor time zone, and the local clock can step
  back. Below, two updates are accepted after a first start, the first when the local
  clock reads 01:59:59.5 on 2026-11-01 and the second, later, when it reads 01:00:00.25
  (the clock was set back an hour in between, as at the end of daylight saving time): the
  row inserted last has the smaller timestamp string.
\<close>

theorem insertion_order_not_timestamp_order:
  "map timestamp (hush_db (snd (serve
      [SubmitUpdate \<lparr>feature_attributions = [''text'' \<mapsto> 0.7], user_id = ''anon-1''\<rparr>
         \<lparr>laplace_text = 0, laplace_typing = 0, laplace_voice = 0,
          now = \<lparr>year = 2026, month = 11, day = 1, hour = 1, minute = 59, second = 59, microsecond = 500000\<rparr>,
          commit_ok = True, refresh_ok = True, print_ok = True\<rparr>,
       SubmitUpdate \<lparr>feature_attributions = [''text'' \<mapsto> 0.2], user_id = ''anon-2''\<rparr>
         \<lparr>laplace_text = 0, laplace_typing = 0, laplace_voice = 0,
          now = \<lparr>year = 2026, month = 11, day = 1, hour = 1, minute = 0, second = 0, microsecond = 250000\<rparr>,
          commit_ok = True, refresh_ok = True, print_ok = True\<rparr>]
      (process_start [])))) =
     [''2025-11-01T10:00:00Z'', ''2025-11-01T11:00:00Z'', ''2025-11-01T12:00:00Z'',
      ''2026-11-01T01:59:59.500000'', ''2026-11-01T01:00:00.250000''] \<and>
   \<not> sorted (map timestamp (hush_db (snd (serve
      [SubmitUpdate \<lparr>feature_attributions = [''text'' \<mapsto> 0.7], user_id = ''anon-1''\<rparr>
         \<lparr>laplace_text = 0, laplace_typing = 0, laplace_voice = 0,
          now = \<lparr>year = 2026, month = 11, day = 1, hour = 1, minute = 59, second = 59, microsecond = 500000\<rparr>,
          commit_ok = True, refresh_ok = True, print_ok = True\<rparr>,
       SubmitUpdate \<lparr>feature_attributions = [''text'' \<mapsto> 0.2], user_id = ''anon-2''\<rparr>
         \<lparr>laplace_text = 0, laplace_typing = 0, laplace_voice = 0,
          now = \<lparr>year = 2026, month = 11, day = 1, hour = 1, minute = 0, second = 0, microsecond = 250000\<rparr>,
          commit_ok = True, refresh_ok = True, print_ok = True\<rparr>]
      (process_start [])))))"
proof -
  let ?p1 = "\<lparr>feature_attributions = [''text'' \<mapsto> (0.7::real)], user_id = ''anon-1''\<rparr>"
  let ?p2 = "\<lparr>feature_attributions = [''text'' \<mapsto> (0.2::real)], user_id = ''anon-2''\<rparr>"
  let ?fx1 = "\<lparr>laplace_text = 0, laplace_typing = 0, laplace_voice = 0,
          now = \<lparr>year = 2026, month = 11, day = 1, hour = 1, minute = 59, second = 59, microsecond = 500000\<rparr>,
          commit_ok = True, refresh_ok = True, print_ok = True\<rparr>"
  let ?fx2 = "\<lparr>laplace_text = 0, laplace_typing = 0, laplace_voice = 0,
          now = \<lparr>year = 2026, month = 11, day = 1, hour = 1, minute = 0, second = 0, microsecond = 250000\<rparr>,
          commit_ok = True, refresh_ok = True, print_ok = True\<rparr>"
  let ?w1 = "snd (submit_model_update ?p1 ?fx1 (process_start []))"
  have r0: "reachable (process_start [])" by (rule first_start)
  have r1: "reachable ?w1" by (rule update [OF r0])
  have t1: "map timestamp (hush_db ?w1) =
      [''2025-11-01T10:00:00Z'', ''2025-11-01T11:00:00Z'', ''2025-11-01T12:00:00Z'',
       ''2026-11-01T01:59:59.500000'']"
    by (simp add: submit_model_update_appends [OF r0] process_start_table seed_timestamps
        isoformat_eval)
  have t2: "map timestamp (hush_db (snd (submit_model_update ?p2 ?fx2 ?w1))) =
      [''2025-11-01T10:00:00Z'', ''2025-11-01T11:00:00Z'', ''2025-11-01T12:00:00Z'',
       ''2026-11-01T01:59:59.500000'', ''2026-11-01T01:00:00.250000'']"
  proof -
    have "commit_ok ?fx2" by simp
    from submit_model_update_appends [OF r1 this, of ?p2] t1 show ?thesis
      by (simp add: isoformat_eval)
  qed
  from t2 show ?thesis by (simp add: split_beta)
qed

text \<open>
  Claim C3, amended. On update rows the order of the timestamp strings is the order of
  the clock readings that produced them: for two valid readings, one \<^verbatim>\<open>isoformat\<close> string
  is below the other exactly when the reading is. Hence, after a first start on an empty
  store, the stored timestamps are in non-decreasing string order by insertion whenever
  the clock readings of the update requests never decrease and are all at 2025-11-01
  12:00:01 or later, that is after the last seed row.
\<close>

theorem timestamps_follow_clock_readings:
  "(valid_datetime d1 \<and> valid_datetime d2 \<longrightarrow>
      (isoformat d1 < isoformat d2 \<longleftrightarrow> datetime_key d1 < datetime_key d2)) \<and>
   (list_all valid_datetime (clock_readings rqs) \<and>
    sorted (map datetime_key (clock_readings rqs)) \<and>
    list_all (\<lambda>d. [2025, 11, 1, 12, 0, 1, 0] \<le> datetime_key d) (clock_readings rqs) \<longrightarrow>
      sorted (map timestamp (hush_db (snd (serve rqs (process_start []))))))"
proof (intro conjI impI)
  assume "valid_datetime d1 \<and> valid_datetime d2"
  then show "isoformat d1 < isoformat d2 \<longleftrightarrow> datetime_key d1 < datetime_key d2"
    by (simp add: isoformat_less)
next
  assume a: "list_all valid_datetime (clock_readings rqs) \<and>
    sorted (map datetime_key (clock_readings rqs)) \<and>
    list_all (\<lambda>d. [2025, 11, 1, 12, 0, 1, 0] \<le> datetime_key d) (clock_readings rqs)"
  then have v: "\<And>d. d \<in> set (clock_readings rqs) \<Longrightarrow> valid_datetime d"
    and b: "\<And>d. d \<in> set (clock_readings rqs) \<Longrightarrow> [2025, 11, 1, 12, 0, 1, 0] \<le> datetime_key d"
    and s: "sorted_wrt (\<lambda>x y. datetime_key x \<le> datetime_key y) (clock_readings rqs)"
    by (simp_all add: list_all_iff sorted_map)
  have s': "sorted (map isoformat (clock_readings rqs))"
    unfolding sorted_map
    by (rule sorted_wrt_mono_rel [OF _ s]) (simp add: isoformat_le v)
  have t: "hush_db (process_start []) = add_all db_data []"
    by (simp add: process_start_table)
  show "sorted (map timestamp (hush_db (snd (serve rqs (process_start [])))))"
  proof (rule serve_sorted)
    show "hush_db (process_start []) \<noteq> []" by (simp add: t add_all_db_data_empty)
    show "sorted (map timestamp (hush_db (process_start [])))"
      by (simp add: t seed_timestamps)
    show "sorted (map isoformat (clock_readings rqs))" by (rule s')
    show "\<forall>r \<in> set (hush_db (process_start [])). \<forall>d \<in> set (clock_readings rqs).
            timestamp r \<le> isoformat d"
    proof (intro ballI)
      fix r d assume r: "r \<in> set (hush_db (process_start []))" and d: "d \<in> set (clock_readings rqs)"
      from r have "timestamp r \<in> set (map timestamp (add_all db_data []))" by (simp add: t)
      then have "timestamp r \<le> ''2025-11-01T12:00:00Z''"
        unfolding seed_timestamps by auto
      also have "\<dots> \<le> isoformat d" by (rule last_seed_le_isoformat [OF v [OF d] b [OF d]])
      finally show "timestamp r \<le> isoformat d" .
    qed
  qed
qed

theorem timestamps_follow_clock_readings_witness:
  "valid_datetime \<lparr>year = 2026, month = 11, day = 1, hour = 1, minute = 0, second = 0, microsecond = 250000\<rparr> \<and>
   valid_datetime \<lparr>year = 2026, month = 11, day = 1, hour = 1, minute = 59, second = 59, microsecond = 500000\<rparr> \<and>
   isoformat \<lparr>year = 2026, month = 11, day = 1, hour = 1, minute = 0, second = 0, microsecond = 250000\<rparr>
     < isoformat \<lparr>year = 2026, month = 11, day = 1, hour = 1, minute = 59, second = 59, microsecond = 500000\<rparr> \<and>
   sorted (map timestamp (hush_db (snd (serve
      [SubmitUpdate \<lparr>feature_attributions = [''text'' \<mapsto> 0.7], user_id = ''anon-1''\<rparr>
         \<lparr>laplace_text = 0, laplace_typing = 0, laplace_voice = 0,
          now = \<lparr>year = 2026, month = 11, day = 1, hour = 1, minute = 0, second = 0, microsecond = 250000\<rparr>,
          commit_ok = True, refresh_ok = True, print_ok = True\<rparr>,
       SubmitUpdate \<lparr>feature_attributions = [''text'' \<mapsto> 0.2], user_id = ''anon-2''\<rparr>
         \<lparr>laplace_text = 0, laplace_typing = 0, laplace_voice = 0,
          now = \<lparr>year = 2026, month = 11, day = 1, hour = 1, minute = 59, second = 59, microsecond = 500000\<rparr>,
          commit_ok = True, refresh_ok = True, print_ok = True\<rparr>]
      (process_start [])))))"
  using timestamps_follow_clock_readings [of
      "\<lparr>year = 2026, month = 11, day = 1, hour = 1, minute = 0, second = 0, microsecond = 250000\<rparr>"
      "\<lparr>year = 2026, month = 11, day = 1, hour = 1, minute = 59, second = 59, microsecond = 500000\<rparr>"
      "[SubmitUpdate \<lparr>feature_attributions = [''text'' \<mapsto> 0.7], user_id = ''anon-1''\<rparr>
         \<lparr>laplace_text = 0, laplace_typing = 0, laplace_voice = 0,
          now = \<lparr>year = 2026, month = 11, day = 1, hour = 1, minute = 0, second = 0, microsecond = 250000\<rparr>,
          commit_ok = True, refresh_ok = True, print_ok = True\<rparr>,
       SubmitUpdate \<lparr>feature_attributions = [''text'' \<mapsto> 0.2], user_id = ''anon-2''\<rparr>
         \<lparr>laplace_text = 0, laplace_typing = 0, laplace_voice = 0,
          now = \<lparr>year = 2026, month = 11, day = 1, hour = 1, minute = 59, second = 59, microsecond = 500000\<rparr>,
          commit_ok = True, refresh_ok = True, print_ok = True\<rparr>]"]
  by (simp add: valid_datetime_def datetime_key_def)

subsection \<open>The count no run reaches\<close>

text \<open>
  The hypotheses on the update count above are needed: with count \<open>- 1\<close> the divisor
  \<^verbatim>\<open>total\<close> is 0, the first assignment raises, and only line 118 has taken effect.
  By \<open>reachable_invariant\<close> no run gets there.
\<close>

lemma submit_model_update_zero_total:
  assumes "global_model_weights w ''text'' = Some t" and "global_update_count w = - 1"
  shows "submit_model_update payload fx w = (Inl ZeroDivisionError, w\<lparr>global_update_count := 1\<rparr>)"
  using assms by (simp add: submit_model_update_def fedavg_assign_def Let_def)

end
